theory Spec2Isabelle
  imports Main
begin

section \<open>The patch transformer plugin (PatchTransformer.go)\<close>

text \<open>
  The plugin reads a patch, given inline or by path, decides whether it is a strategic
  merge patch or a JSON patch (RFC 6902), and applies it to resources of a resource map.
  The functions \<open>Config\<close>, \<open>Transform\<close> and \<open>jsonPatchFromBytes\<close> are embedded below as
  they are written. The packages they call (the loader, the resource factory, the yaml
  and jsonpatch libraries, the resource map and the resource methods) are not part of
  the file: they are parameters of the model, with the result shapes of their Go
  signatures.
\<close>

subsection \<open>Errors\<close>

text \<open>
  A Go \<open>error\<close> value. \<open>Errorf\<close> is \<open>fmt.Errorf\<close> with the formatted message,
  \<open>Wrapf e msg\<close> is \<open>errors.Wrapf(e, msg)\<close>. An error handed back by a collaborator is
  some value of this type; returning it unchanged is returning the same value.
\<close>

datatype error = Errorf string | Wrapf error string

text \<open>The four messages of \<open>Config\<close> and the one of \<open>Transform\<close>, under the names the
  specification gives them. \<open>CHR 0x0A\<close> is the newline of the format string.\<close>

definition MissingPatchSource :: "string \<Rightarrow> error" where
  "MissingPatchSource c = Errorf (''must specify one of patch and path in'' @ [CHR 0x0A] @ c)"

definition ConflictingPatchSource :: "string \<Rightarrow> error" where
  "ConflictingPatchSource c =
     Errorf (''patch and path can'' @ [CHR 0x27] @ ''t be set at the same time'' @ [CHR 0x0A] @ c)"

definition UnrecognizedPatchFormat :: "string \<Rightarrow> error" where
  "UnrecognizedPatchFormat patch =
     Errorf (''unable to get either a Strategic Merge Patch or JSON patch 6902 from '' @ patch)"

definition AmbiguousPatchType :: "string \<Rightarrow> error" where
  "AmbiguousPatchType patch =
     Errorf (''a patch can'' @ [CHR 0x27] @ ''t be both a Strategic Merge Patch and JSON patch 6902 ''
             @ patch)"

definition MissingTarget :: "string \<Rightarrow> error" where
  "MissingTarget patch = Errorf (''must specify a target for patch '' @ patch)"

definition EmptyJsonPatch :: error where
  "EmptyJsonPatch = Errorf ''empty json patch operations''"

definition PatchApplyFailure :: "error \<Rightarrow> string \<Rightarrow> error" where
  "PatchApplyFailure e patch =
     Wrapf e (''failed to apply json patch '' @ [CHR 0x27] @ patch @ [CHR 0x27])"

subsection \<open>Data\<close>

text \<open>
  Modelled from the spec: the types \<open>resource.Resource\<close>, \<open>resid.ResId\<close> and
  \<open>gvk.Gvk\<close> are declared outside the file. The specification describes a document as
  addressed by its identity \<open>{group, version, kind, name, namespace}\<close>, read by
  \<open>getName/getNamespace/getGVK\<close> and written by \<open>setName/setNamespace/setGVK\<close>. A
  resource is therefore a record of its gvk, name and namespace and of the rest of the
  document, of an arbitrary type \<open>'d\<close>. The embedded \<open>Kunstructured\<close> of a resource is
  the resource's document, that is the same record.
\<close>

record Gvk =
  Group :: string
  Version :: string
  Kind :: string

record ResId =
  idGvk :: Gvk
  idName :: string
  idNamespace :: string

record 'd Resource =
  rGvk :: Gvk
  rName :: string
  rNamespace :: string
  rDoc :: 'd

definition GetName :: "'d Resource \<Rightarrow> string" where "GetName r = rName r"
definition GetNamespace :: "'d Resource \<Rightarrow> string" where "GetNamespace r = rNamespace r"
definition GetGvk :: "'d Resource \<Rightarrow> Gvk" where "GetGvk r = rGvk r"
definition SetName :: "string \<Rightarrow> 'd Resource \<Rightarrow> 'd Resource" where
  "SetName n r = r\<lparr>rName := n\<rparr>"
definition SetNamespace :: "string \<Rightarrow> 'd Resource \<Rightarrow> 'd Resource" where
  "SetNamespace n r = r\<lparr>rNamespace := n\<rparr>"
definition SetGvk :: "Gvk \<Rightarrow> 'd Resource \<Rightarrow> 'd Resource" where
  "SetGvk g r = r\<lparr>rGvk := g\<rparr>"

text \<open>\<open>jsonpatch.Patch\<close> is a slice of operations, an operation a map from a key to a raw
  JSON message. A nil slice is \<open>None\<close>, an empty one \<open>Some []\<close>.\<close>

type_synonym Operation = "(string \<times> string) list"
type_synonym JsonPatch = "Operation list"

text \<open>
  The plugin. \<open>loadedPatch\<close> is a pointer to a resource that only the plugin holds
  (the factory made it), so it is kept by value, \<open>None\<close> for nil; \<open>Target\<close> is a pointer
  to a selector, of an arbitrary type \<open>'s\<close>. The fields \<open>ldr\<close> and \<open>rf\<close> only store the
  two arguments of \<open>Config\<close>, which the model passes on directly.
\<close>

record ('d, 's) plugin =
  loadedPatch :: "'d Resource option"
  decodedPatch :: "JsonPatch option"
  Path :: string
  Patch :: string
  Target :: "'s option"

text \<open>The zero value of the struct, which is what \<open>KustomizePlugin\<close> is before \<open>Config\<close>.\<close>

definition KustomizePlugin :: "('d, 's) plugin" where
  "KustomizePlugin =
     \<lparr>loadedPatch = None, decodedPatch = None, Path = [], Patch = [], Target = None\<rparr>"

text \<open>Resources of a resource map are shared through pointers: a store from addresses
  to resources, updated where the code mutates a resource in place.\<close>

type_synonym addr = nat
type_synonym 'd store = "addr \<Rightarrow> 'd Resource"

text \<open>\<open>resmap.ResMap\<close>: the two methods \<open>Transform\<close> calls, as functions of the
  resources' present contents.\<close>

record ('d, 's) ResMap =
  GetById :: "'d store \<Rightarrow> ResId \<Rightarrow> error + addr"
  Select :: "'d store \<Rightarrow> 's \<Rightarrow> error + addr list"

text \<open>
  The other collaborators. A Go function returning \<open>(value, error)\<close> whose caller reads
  the value only when the error is nil is a sum; where the caller tests the value and
  the error separately (\<open>FromBytes\<close>, \<open>DecodePatch\<close>), and where a method mutates its
  receiver and returns an error (\<open>UnmarshalJSON\<close>, \<open>Patch\<close>, \<open>yaml.Unmarshal\<close>), it is a
  pair. \<open>yaml_Unmarshal c (path, patch, target)\<close> gives the exported fields after
  unmarshalling \<open>c\<close> into a plugin that held \<open>(path, patch, target)\<close>.
\<close>

record ('d, 's) env =
  yaml_Unmarshal :: "string \<Rightarrow> string \<times> string \<times> 's option
                       \<Rightarrow> (string \<times> string \<times> 's option) \<times> error option"
  YAMLToJSON :: "string \<Rightarrow> error + string"
  DecodePatch :: "string \<Rightarrow> JsonPatch option \<times> error option"
  OrgId :: "'d Resource \<Rightarrow> ResId"
  Resource_Patch :: "'d Resource \<Rightarrow> 'd Resource \<Rightarrow> 'd Resource \<times> error option"
  MarshalJSON :: "'d Resource \<Rightarrow> error + string"
  UnmarshalJSON :: "'d Resource \<Rightarrow> string \<Rightarrow> 'd Resource \<times> error option"
  Apply :: "JsonPatch \<Rightarrow> string \<Rightarrow> error + string"

type_synonym Loader = "string \<Rightarrow> error + string"
type_synonym 'd Factory = "string \<Rightarrow> 'd Resource option \<times> error option"

text \<open>The calls \<open>Config\<close> makes to the loader and to the decoders, in order.\<close>

datatype call =
  Call_Load string | Call_FromBytes string | Call_YAMLToJSON string | Call_DecodePatch string

subsection \<open>jsonPatchFromBytes\<close>

definition jsonPatchFromBytes ::
  "('d, 's) env \<Rightarrow> string \<Rightarrow> JsonPatch option \<times> error option \<times> call list" where
  "jsonPatchFromBytes env in' =
     (let ops = in' in
      if ops = [] then (None, Some EmptyJsonPatch, [])
      else if hd ops \<noteq> CHR ''['' then
        (case YAMLToJSON env in' of
           Inl err \<Rightarrow> (None, Some err, [Call_YAMLToJSON in'])
         | Inr jsonOps \<Rightarrow>
             (fst (DecodePatch env jsonOps), snd (DecodePatch env jsonOps),
              [Call_YAMLToJSON in', Call_DecodePatch jsonOps]))
      else (fst (DecodePatch env ops), snd (DecodePatch env ops), [Call_DecodePatch ops]))"

subsection \<open>Config\<close>

text \<open>Lines 39 to 48: the two checks on the patch and path fields.\<close>

definition Config_validate :: "string \<Rightarrow> ('d, 's) plugin \<Rightarrow> error option" where
  "Config_validate c p =
     (if Patch p = [] \<and> Path p = [] then Some (MissingPatchSource c)
      else if Patch p \<noteq> [] \<and> Path p \<noteq> [] then Some (ConflictingPatchSource c)
      else None)"

text \<open>Lines 49 to 58: the bytes \<open>in\<close>, nil at first, from the loader or from the
  inline patch.\<close>

definition Config_source :: "Loader \<Rightarrow> ('d, 's) plugin \<Rightarrow> (error + string) \<times> call list" where
  "Config_source ldr p =
     (let in0 = [] in
      case (if Path p \<noteq> [] then (ldr (Path p), [Call_Load (Path p)]) else (Inr in0, [])) of
        (Inl err, calls) \<Rightarrow> (Inl err, calls)
      | (Inr in1, calls) \<Rightarrow> (Inr (if Patch p \<noteq> [] then Patch p else in1), calls))"

text \<open>Lines 60 to 78: both decoders run on the bytes. Line 74 assigns an error to the
  named result \<open>err\<close>; line 78 is \<open>return nil\<close>, which returns nil whatever
  \<open>err\<close> holds.\<close>

definition Config_classify ::
  "('d, 's) env \<Rightarrow> 'd Factory \<Rightarrow> string \<Rightarrow> ('d, 's) plugin
     \<Rightarrow> error option \<times> ('d, 's) plugin \<times> call list" where
  "Config_classify env rf in' p =
     (let (patchSM, errSM) = rf in';
          (patchJson, errJson, callsJson) = jsonPatchFromBytes env in';
          calls = Call_FromBytes in' # callsJson
      in if errSM \<noteq> None \<and> errJson \<noteq> None
         then (Some (UnrecognizedPatchFormat (Patch p)), p, calls)
         else
           let p1 = (if errSM = None \<and> errJson \<noteq> None then p\<lparr>loadedPatch := patchSM\<rparr> else p);
               p2 = (if errJson = None \<and> errSM \<noteq> None then p1\<lparr>decodedPatch := patchJson\<rparr> else p1);
               err = (if patchSM \<noteq> None \<and> patchJson \<noteq> None
                      then Some (AmbiguousPatchType (Patch p)) else None)
           in (None, p2, calls))"

definition Config ::
  "('d, 's) env \<Rightarrow> Loader \<Rightarrow> 'd Factory \<Rightarrow> string \<Rightarrow> ('d, 's) plugin
     \<Rightarrow> error option \<times> ('d, 's) plugin \<times> call list" where
  "Config env ldr rf c p0 =
     (let ((path, patch, target), err) = yaml_Unmarshal env c (Path p0, Patch p0, Target p0);
          p = p0\<lparr>Path := path, Patch := patch, Target := target\<rparr>
      in case err of
           Some e \<Rightarrow> (Some e, p, [])
         | None \<Rightarrow>
            (case Config_validate c p of
               Some e \<Rightarrow> (Some e, p, [])
             | None \<Rightarrow>
                (case Config_source ldr p of
                   (Inl e, calls) \<Rightarrow> (Some e, p, calls)
                 | (Inr in', calls) \<Rightarrow>
                     (case Config_classify env rf in' p of
                        (err', p', calls') \<Rightarrow> (err', p', calls @ calls')))))"

subsection \<open>Transform\<close>

text \<open>Lines 82 to 91: the patch is merged into the resource with the patch's own id.\<close>

definition Transform_implicit ::
  "('d, 's) env \<Rightarrow> ('d, 's) ResMap \<Rightarrow> ('d, 's) plugin \<Rightarrow> 'd store
     \<Rightarrow> error option \<times> 'd store" where
  "Transform_implicit env m p \<sigma> =
     (case loadedPatch p of
        Some lp \<Rightarrow>
          if Target p = None then
            (case GetById m \<sigma> (OrgId env lp) of
               Inl err \<Rightarrow> (Some err, \<sigma>)
             | Inr target \<Rightarrow>
                 (let (r', err) = Resource_Patch env (\<sigma> target) lp
                  in (err, \<sigma>(target := r'))))
          else (None, \<sigma>)
      | None \<Rightarrow> (None, \<sigma>))"

text \<open>Lines 102 to 116 for one resource: marshal, apply the operations, unmarshal.\<close>

definition Transform_json ::
  "('d, 's) env \<Rightarrow> ('d, 's) plugin \<Rightarrow> addr \<Rightarrow> 'd store \<Rightarrow> error option \<times> 'd store" where
  "Transform_json env p resource \<sigma> =
     (case decodedPatch p of
        None \<Rightarrow> (None, \<sigma>)
      | Some dp \<Rightarrow>
          (case MarshalJSON env (\<sigma> resource) of
             Inl err \<Rightarrow> (Some err, \<sigma>)
           | Inr rawObj \<Rightarrow>
               (case Apply env dp rawObj of
                  Inl err \<Rightarrow> (Some (PatchApplyFailure err (Patch p)), \<sigma>)
                | Inr modifiedObj \<Rightarrow>
                    (let (r', err) = UnmarshalJSON env (\<sigma> resource) modifiedObj
                     in (err, \<sigma>(resource := r'))))))"

text \<open>Lines 118 to 120: the plugin's patch takes the resource's name, namespace and
  gvk.\<close>

definition Transform_restamp :: "'d Resource \<Rightarrow> 'd Resource \<Rightarrow> 'd Resource" where
  "Transform_restamp resource lp =
     (let lp1 = SetName (GetName resource) lp;
          lp2 = SetNamespace (GetNamespace resource) lp1;
          lp3 = SetGvk (GetGvk resource) lp2
      in lp3)"

text \<open>Lines 117 to 125 for one resource: the restamped patch is merged into the
  resource.\<close>

definition Transform_merge ::
  "('d, 's) env \<Rightarrow> ('d, 's) plugin \<Rightarrow> addr \<Rightarrow> 'd store
     \<Rightarrow> error option \<times> ('d, 's) plugin \<times> 'd store" where
  "Transform_merge env p resource \<sigma> =
     (case loadedPatch p of
        None \<Rightarrow> (None, p, \<sigma>)
      | Some lp \<Rightarrow>
          (let lp' = Transform_restamp (\<sigma> resource) lp;
               (r', err) = Resource_Patch env (\<sigma> resource) lp'
           in (err, p\<lparr>loadedPatch := Some lp'\<rparr>, \<sigma>(resource := r'))))"

text \<open>The body of the loop at line 101, for one resource.\<close>

definition Transform_body ::
  "('d, 's) env \<Rightarrow> ('d, 's) plugin \<Rightarrow> addr \<Rightarrow> 'd store
     \<Rightarrow> error option \<times> ('d, 's) plugin \<times> 'd store" where
  "Transform_body env p resource \<sigma> =
     (case Transform_json env p resource \<sigma> of
        (Some err, \<sigma>1) \<Rightarrow> (Some err, p, \<sigma>1)
      | (None, \<sigma>1) \<Rightarrow> Transform_merge env p resource \<sigma>1)"

text \<open>The loop at line 101: the first error returns from \<open>Transform\<close>.\<close>

fun Transform_loop ::
  "('d, 's) env \<Rightarrow> ('d, 's) plugin \<Rightarrow> addr list \<Rightarrow> 'd store
     \<Rightarrow> error option \<times> ('d, 's) plugin \<times> 'd store" where
  "Transform_loop env p [] \<sigma> = (None, p, \<sigma>)"
| "Transform_loop env p (resource # resources) \<sigma> =
     (case Transform_body env p resource \<sigma> of
        (Some err, p1, \<sigma>1) \<Rightarrow> (Some err, p1, \<sigma>1)
      | (None, p1, \<sigma>1) \<Rightarrow> Transform_loop env p1 resources \<sigma>1)"

definition Transform ::
  "('d, 's) env \<Rightarrow> ('d, 's) ResMap \<Rightarrow> ('d, 's) plugin \<Rightarrow> 'd store
     \<Rightarrow> error option \<times> ('d, 's) plugin \<times> 'd store" where
  "Transform env m p \<sigma> =
     (case Transform_implicit env m p \<sigma> of
        (Some err, \<sigma>1) \<Rightarrow> (Some err, p, \<sigma>1)
      | (None, \<sigma>1) \<Rightarrow>
          (case Target p of
             None \<Rightarrow> (Some (MissingTarget (Patch p)), p, \<sigma>1)
           | Some target \<Rightarrow>
               (case Select m \<sigma>1 target of
                  Inl err \<Rightarrow> (Some err, p, \<sigma>1)
                | Inr resources \<Rightarrow> Transform_loop env p resources \<sigma>1)))"

subsection \<open>The specification's reading of the first-byte test\<close>

text \<open>
  The specification words the test of \<open>jsonPatchFromBytes\<close> on the trimmed body. This
  definition follows the specification, not the code, and is compared with the code
  below: the body without its leading and trailing white space.
\<close>

definition spec_is_space :: "char \<Rightarrow> bool" where
  "spec_is_space ch = (ch = CHR '' '' \<or> ch = CHR 0x09 \<or> ch = CHR 0x0A \<or> ch = CHR 0x0D)"

definition spec_trimmed :: "string \<Rightarrow> string" where
  "spec_trimmed body = rev (dropWhile spec_is_space (rev (dropWhile spec_is_space body)))"

subsection \<open>A concrete setting\<close>

text \<open>
  Documents whose remaining content is a list of fields with integer values, selectors
  that are strings, and collaborators small enough to evaluate. The merge of the setting
  lets every field of the patch, its name, namespace and gvk included, overwrite the
  target's, and fails on a target without fields.
\<close>

type_synonym ex_doc = "(string \<times> int) list"

definition ex_gvk :: Gvk where
  "ex_gvk = \<lparr>Group = ''apps'', Version = ''v1'', Kind = ''Deployment''\<rparr>"

definition ex_res_x :: "ex_doc Resource" where
  "ex_res_x = \<lparr>rGvk = ex_gvk, rName = ''x'', rNamespace = ''prod'', rDoc = [(''replicas'', 1)]\<rparr>"

definition ex_res_y :: "ex_doc Resource" where
  "ex_res_y = \<lparr>rGvk = ex_gvk, rName = ''y'', rNamespace = ''test'', rDoc = [(''replicas'', 2)]\<rparr>"

definition ex_res_bad :: "ex_doc Resource" where
  "ex_res_bad = \<lparr>rGvk = ex_gvk, rName = ''z'', rNamespace = ''test'', rDoc = []\<rparr>"

definition ex_patch_res :: "ex_doc Resource" where
  "ex_patch_res = \<lparr>rGvk = ex_gvk, rName = ''x'', rNamespace = ''prod'', rDoc = [(''replicas'', 3)]\<rparr>"

definition ex_store :: "ex_doc store" where
  "ex_store = (\<lambda>a. if a = 0 then ex_res_x else ex_res_y)"

definition ex_store_bad :: "ex_doc store" where
  "ex_store_bad = (\<lambda>a. if a = 0 then ex_res_x else if a = 1 then ex_res_bad else ex_res_y)"

definition ex_merge :: "ex_doc Resource \<Rightarrow> ex_doc Resource \<Rightarrow> ex_doc Resource \<times> error option" where
  "ex_merge r q =
     (if rDoc r = [] then (r, Some (Errorf ''merge failed''))
      else (\<lparr>rGvk = rGvk q, rName = rName q, rNamespace = rNamespace q,
             rDoc = rDoc q @ filter (\<lambda>kv. fst kv \<notin> set (map fst (rDoc q))) (rDoc r)\<rparr>, None))"

definition ex_OrgId :: "ex_doc Resource \<Rightarrow> ResId" where
  "ex_OrgId r = \<lparr>idGvk = rGvk r, idName = rName r, idNamespace = rNamespace r\<rparr>"

text \<open>The patch bodies: a strategic merge document, a JSON patch, a body both decoders
  accept, and the JSON patch after a blank.\<close>

definition ex_body_sm :: string where "ex_body_sm = ''{name: x, replicas: 3}''"
definition ex_body_json :: string where "ex_body_json = ''[{op: replace}]''"
definition ex_body_both :: string where "ex_body_both = ''[{op: add, name: x}]''"
definition ex_body_blank :: string where "ex_body_blank = '' [{op: replace}]''"

definition ex_rf :: "ex_doc Factory" where
  "ex_rf b = (if b = ex_body_sm \<or> b = ex_body_both then (Some ex_patch_res, None)
              else (None, Some (Errorf ''expected 1 resource'')))"

definition ex_DecodePatch :: "string \<Rightarrow> JsonPatch option \<times> error option" where
  "ex_DecodePatch b =
     (if b = ex_body_json \<or> b = ex_body_blank then (Some [[(''op'', ''replace'')]], None)
      else if b = ex_body_both then (Some [[(''op'', ''add'')]], None)
      else (None, Some (Errorf ''cannot unmarshal'')))"

definition ex_YAMLToJSON :: "string \<Rightarrow> error + string" where
  "ex_YAMLToJSON b = (if b = ex_body_sm then Inr ''{name:x,replicas:3}''
                      else Inl (Errorf ''yaml: did not find expected node''))"

text \<open>The configurations: the text and the fields it sets when it unmarshals.\<close>

definition ex_cfg_none :: string where "ex_cfg_none = ''target: all''"
definition ex_cfg_conflict :: string where "ex_cfg_conflict = ''path: p.yaml, patch: []''"
definition ex_cfg_path :: string where "ex_cfg_path = ''path: p.yaml, target: all''"
definition ex_cfg_lost :: string where "ex_cfg_lost = ''path: lost.yaml''"
definition ex_cfg_both :: string where "ex_cfg_both = ''patch: both, target: all''"
definition ex_cfg_both_bad :: string where "ex_cfg_both_bad = ''patch: both, target: ?''"

definition ex_Unmarshal ::
  "string \<Rightarrow> string \<times> string \<times> string option
     \<Rightarrow> (string \<times> string \<times> string option) \<times> error option" where
  "ex_Unmarshal c flds =
     (if c = ex_cfg_none then ((fst flds, fst (snd flds), Some ''all''), None)
      else if c = ex_cfg_conflict then ((''p.yaml'', ''[]'', snd (snd flds)), None)
      else if c = ex_cfg_path then ((''p.yaml'', fst (snd flds), Some ''all''), None)
      else if c = ex_cfg_lost then ((''lost.yaml'', fst (snd flds), snd (snd flds)), None)
      else if c = ex_cfg_both then ((fst flds, ex_body_both, Some ''all''), None)
      else if c = ex_cfg_both_bad then ((fst flds, ex_body_both, Some ''?''), None)
      else (flds, Some (Errorf ''error unmarshaling'')))"

definition ex_ldr :: Loader where
  "ex_ldr path = (if path = ''p.yaml'' then Inr ex_body_json
                  else Inl (Errorf ''no such file''))"

definition ex_env :: "(ex_doc, string) env" where
  "ex_env = \<lparr>yaml_Unmarshal = ex_Unmarshal, YAMLToJSON = ex_YAMLToJSON,
             DecodePatch = ex_DecodePatch, OrgId = ex_OrgId, Resource_Patch = ex_merge,
             MarshalJSON = (\<lambda>r. Inr []), UnmarshalJSON = (\<lambda>r b. (r, None)),
             Apply = (\<lambda>ops b. Inr b)\<rparr>"

text \<open>The resource map: the resource at address 0 is found by its id; the selector
  \<open>all\<close> matches the resources at 0, 1 and 2, \<open>none\<close> matches nothing, and any other
  selector is refused.\<close>

definition ex_m :: "(ex_doc, string) ResMap" where
  "ex_m = \<lparr>GetById = (\<lambda>\<sigma> i. if i = ex_OrgId (\<sigma> 0) then Inr 0
                              else Inl (Errorf ''no matches for Id'')),
           Select = (\<lambda>\<sigma> s. if s = ''all'' then Inr [0, 1, 2]
                             else if s = ''none'' then Inr []
                             else Inl (Errorf ''bad selector''))\<rparr>"

definition ex_plugin_sm :: "(ex_doc, string) plugin" where
  "ex_plugin_sm = \<lparr>loadedPatch = Some ex_patch_res, decodedPatch = None, Path = [],
                    Patch = ex_body_sm, Target = None\<rparr>"

subsection \<open>The merge primitive\<close>

text \<open>
  Modelled from the spec: the merge primitive \<open>resource.Patch\<close>, the method
  \<open>mergeStrategic\<close> of a document, is outside the file. The specification (section 4.3)
  describes it as a field-level deep merge: scalar and mapping fields in the patch
  overwrite or merge into the corresponding target fields, and sequence fields are
  replaced wholesale (merge keys are left to the document model). A document is a
  scalar, a sequence or a mapping from field names to documents. \<open>spec_merge t p\<close>
  merges the patch \<open>p\<close> into the target \<open>t\<close>: two mappings are merged field by field,
  the fields of the target first and then the fields only the patch has; anything else
  in the patch replaces what the target has. The name, namespace and gvk of a resource
  are scalar fields every patch carries, so \<open>spec_Patch\<close> takes them from the patch.
\<close>

datatype doc = Scalar string | Sequence "doc list" | Mapping "(string \<times> doc) list"

fun spec_merge :: "doc \<Rightarrow> doc \<Rightarrow> doc"
  and spec_merge_fields ::
    "(string \<times> doc) list \<Rightarrow> (string \<times> doc) list \<Rightarrow> (string \<times> doc) list" where
  "spec_merge (Mapping ts) (Mapping ps) =
     Mapping (spec_merge_fields ts ps @ filter (\<lambda>kv. map_of ts (fst kv) = None) ps)"
| "spec_merge t (Scalar s) = Scalar s"
| "spec_merge t (Sequence ds) = Sequence ds"
| "spec_merge (Scalar s) (Mapping ps) = Mapping ps"
| "spec_merge (Sequence ds) (Mapping ps) = Mapping ps"
| "spec_merge_fields [] ps = []"
| "spec_merge_fields ((k, v) # ts) ps =
     (case map_of ps k of None \<Rightarrow> (k, v) | Some pv \<Rightarrow> (k, spec_merge v pv))
       # spec_merge_fields ts ps"

definition spec_Patch :: "doc Resource \<Rightarrow> doc Resource \<Rightarrow> doc Resource" where
  "spec_Patch r q =
     \<lparr>rGvk = rGvk q, rName = rName q, rNamespace = rNamespace q,
      rDoc = spec_merge (rDoc r) (rDoc q)\<rparr>"

text \<open>The field of a document at a path of field names, if there is one.\<close>

fun spec_field :: "doc \<Rightarrow> string list \<Rightarrow> doc option" where
  "spec_field d [] = Some d"
| "spec_field (Mapping ts) (k # ks) =
     (case map_of ts k of None \<Rightarrow> None | Some v \<Rightarrow> spec_field v ks)"
| "spec_field (Scalar s) (k # ks) = None"
| "spec_field (Sequence ds) (k # ks) = None"

text \<open>A patch body carries a path when the path, followed through the mappings of the
  body, never leaves it: it ends inside the body, or it reaches a scalar or a sequence
  of the body, which replaces everything below.\<close>

fun spec_carries :: "doc \<Rightarrow> string list \<Rightarrow> bool" where
  "spec_carries (Mapping ps) (k # ks) =
     (case map_of ps k of None \<Rightarrow> False | Some v \<Rightarrow> spec_carries v ks)"
| "spec_carries (Mapping ps) [] = True"
| "spec_carries (Scalar s) ks = True"
| "spec_carries (Sequence ds) ks = True"

subsection \<open>A concrete setting with document trees\<close>

text \<open>Two resources with nested fields, a patch that carries \<open>spec.replicas\<close> only, and
  the merge of the specification as the collaborator, which never fails here.\<close>

definition ex_tree_patch :: "doc Resource" where
  "ex_tree_patch =
     \<lparr>rGvk = ex_gvk, rName = ''x'', rNamespace = ''prod'',
      rDoc = Mapping [(''spec'', Mapping [(''replicas'', Scalar ''3'')])]\<rparr>"

definition ex_tree_x :: "doc Resource" where
  "ex_tree_x =
     \<lparr>rGvk = ex_gvk, rName = ''x'', rNamespace = ''prod'',
      rDoc = Mapping [(''spec'', Mapping [(''replicas'', Scalar ''1''),
                                          (''paused'', Scalar ''no'')])]\<rparr>"

definition ex_tree_y :: "doc Resource" where
  "ex_tree_y =
     \<lparr>rGvk = ex_gvk, rName = ''y'', rNamespace = ''test'',
      rDoc = Mapping [(''spec'', Mapping [(''replicas'', Scalar ''2'')]),
                      (''labels'', Mapping [(''tier'', Scalar ''db'')])]\<rparr>"

definition ex_tree_store :: "doc store" where
  "ex_tree_store = (\<lambda>a. if a = 0 then ex_tree_x else ex_tree_y)"

definition ex_tree_env :: "(doc, string) env" where
  "ex_tree_env =
     \<lparr>yaml_Unmarshal = (\<lambda>c flds. (flds, None)), YAMLToJSON = Inr,
      DecodePatch = (\<lambda>b. (None, Some (Errorf ''cannot unmarshal''))),
      OrgId = (\<lambda>r. \<lparr>idGvk = rGvk r, idName = rName r, idNamespace = rNamespace r\<rparr>),
      Resource_Patch = (\<lambda>r q. (spec_Patch r q, None)),
      MarshalJSON = (\<lambda>r. Inr []), UnmarshalJSON = (\<lambda>r b. (r, None)),
      Apply = (\<lambda>ops b. Inr b)\<rparr>"

definition ex_tree_m :: "(doc, string) ResMap" where
  "ex_tree_m = \<lparr>GetById = (\<lambda>\<sigma> i. Inl (Errorf ''no matches for Id'')),
                Select = (\<lambda>\<sigma> s. if s = ''all'' then Inr [0, 1]
                                  else Inl (Errorf ''bad selector''))\<rparr>"

definition ex_tree_plugin :: "(doc, string) plugin" where
  "ex_tree_plugin = \<lparr>loadedPatch = Some ex_tree_patch, decodedPatch = None, Path = [],
                      Patch = ''{name: x, spec: {replicas: 3}}'', Target = Some ''all''\<rparr>"

subsection \<open>A concrete setting for JSON patches\<close>

text \<open>Collaborators of the JSON steps that can fail: a resource without fields does
  not marshal, the operations fail on the bytes \<open>t\<close>, the bytes \<open>u\<close> do not
  unmarshal, and the bytes \<open>v\<close> unmarshal to a resource without fields, on which the
  merge of the setting fails. The bytes of a resource are its name.\<close>

definition ex_res_t :: "ex_doc Resource" where
  "ex_res_t = \<lparr>rGvk = ex_gvk, rName = ''t'', rNamespace = ''test'', rDoc = [(''replicas'', 7)]\<rparr>"

definition ex_res_u :: "ex_doc Resource" where
  "ex_res_u = \<lparr>rGvk = ex_gvk, rName = ''u'', rNamespace = ''test'', rDoc = [(''replicas'', 8)]\<rparr>"

definition ex_store_with :: "ex_doc Resource \<Rightarrow> ex_doc store" where
  "ex_store_with r = (\<lambda>a. if a = 0 then ex_res_x else if a = 1 then r else ex_res_y)"

definition ex_MarshalJSON :: "ex_doc Resource \<Rightarrow> error + string" where
  "ex_MarshalJSON r = (if rDoc r = [] then Inl (Errorf ''json: unsupported value'')
                       else Inr (rName r))"

definition ex_Apply :: "JsonPatch \<Rightarrow> string \<Rightarrow> error + string" where
  "ex_Apply ops b = (if b = ''t'' then Inl (Errorf ''testing value failed'') else Inr b)"

definition ex_res_v :: "ex_doc Resource" where
  "ex_res_v = \<lparr>rGvk = ex_gvk, rName = ''v'', rNamespace = ''test'', rDoc = [(''replicas'', 9)]\<rparr>"

definition ex_UnmarshalJSON :: "ex_doc Resource \<Rightarrow> string \<Rightarrow> ex_doc Resource \<times> error option" where
  "ex_UnmarshalJSON r b =
     (if b = ''u'' then (r, Some (Errorf ''unexpected end of JSON input''))
      else if b = ''v'' then (r\<lparr>rDoc := []\<rparr>, None)
      else (r\<lparr>rDoc := [(''replicas'', 5)]\<rparr>, None))"

definition ex_env_json :: "(ex_doc, string) env" where
  "ex_env_json = ex_env\<lparr>MarshalJSON := ex_MarshalJSON, Apply := ex_Apply,
                         UnmarshalJSON := ex_UnmarshalJSON\<rparr>"

definition ex_plugin_json :: "(ex_doc, string) plugin" where
  "ex_plugin_json = \<lparr>loadedPatch = None, decodedPatch = Some [[(''op'', ''replace'')]],
                      Path = [], Patch = ex_body_json, Target = Some ''all''\<rparr>"

definition ex_plugin_two :: "(ex_doc, string) plugin" where
  "ex_plugin_two = ex_plugin_json\<lparr>loadedPatch := Some ex_patch_res\<rparr>"

section \<open>Properties\<close>

lemmas ex_defs = ex_env_def ex_m_def ex_Unmarshal_def ex_ldr_def ex_rf_def ex_DecodePatch_def
  ex_YAMLToJSON_def ex_merge_def ex_OrgId_def ex_store_def
  ex_res_x_def ex_res_y_def ex_patch_res_def ex_gvk_def
  ex_body_sm_def ex_body_json_def ex_body_both_def ex_body_blank_def
  ex_cfg_none_def ex_cfg_conflict_def ex_cfg_path_def ex_cfg_lost_def ex_cfg_both_def
  ex_cfg_both_bad_def ex_plugin_sm_def KustomizePlugin_def

lemmas Config_defs = Config_def Config_validate_def Config_source_def Config_classify_def
  jsonPatchFromBytes_def

lemmas Transform_defs = Transform_def Transform_implicit_def Transform_body_def
  Transform_json_def Transform_merge_def Transform_restamp_def
  GetName_def GetNamespace_def GetGvk_def SetName_def SetNamespace_def SetGvk_def

subsection \<open>The loop of Transform\<close>

lemma Transform_restamp_eq:
  "Transform_restamp r lp = lp\<lparr>rName := rName r, rNamespace := rNamespace r, rGvk := rGvk r\<rparr>"
  by (simp add: Transform_restamp_def SetName_def SetNamespace_def SetGvk_def
      GetName_def GetNamespace_def GetGvk_def)

lemma Transform_restamp_idem:
  "Transform_restamp r (Transform_restamp r' lp) = Transform_restamp r lp"
  by (simp add: Transform_restamp_eq)

lemma Transform_json_frame:
  "Transform_json env p a \<sigma> = (e, \<sigma>1) \<Longrightarrow> b \<noteq> a \<Longrightarrow> \<sigma>1 b = \<sigma> b"
  by (auto simp: Transform_json_def split: option.splits sum.splits prod.splits)

lemma Transform_merge_frame:
  "Transform_merge env p a \<sigma> = (e, p1, \<sigma>1) \<Longrightarrow> b \<noteq> a \<Longrightarrow> \<sigma>1 b = \<sigma> b"
  by (auto simp: Transform_merge_def Let_def split: option.splits prod.splits)

lemma Transform_body_frame:
  "Transform_body env p a \<sigma> = (e, p1, \<sigma>1) \<Longrightarrow> b \<noteq> a \<Longrightarrow> \<sigma>1 b = \<sigma> b"
proof -
  assume body: "Transform_body env p a \<sigma> = (e, p1, \<sigma>1)" and ne: "b \<noteq> a"
  obtain e2 \<sigma>2 where js: "Transform_json env p a \<sigma> = (e2, \<sigma>2)"
    by (cases "Transform_json env p a \<sigma>") auto
  have step: "\<sigma>2 b = \<sigma> b" using Transform_json_frame [OF js ne] .
  show ?thesis
  proof (cases e2)
    case None
    with body js have "Transform_merge env p a \<sigma>2 = (e, p1, \<sigma>1)"
      by (simp add: Transform_body_def)
    from Transform_merge_frame [OF this ne] step show ?thesis by simp
  next
    case (Some err)
    with body js have "\<sigma>1 = \<sigma>2" by (simp add: Transform_body_def)
    with step show ?thesis by simp
  qed
qed

lemma Transform_loop_frame:
  "Transform_loop env p as \<sigma> = (e, p1, \<sigma>1) \<Longrightarrow> b \<notin> set as \<Longrightarrow> \<sigma>1 b = \<sigma> b"
proof (induction as arbitrary: p \<sigma>)
  case Nil
  then show ?case by simp
next
  case (Cons a as)
  obtain e2 p2 \<sigma>2 where body: "Transform_body env p a \<sigma> = (e2, p2, \<sigma>2)"
    by (cases "Transform_body env p a \<sigma>") auto
  from Cons.prems(2) have ne: "b \<noteq> a" and nin: "b \<notin> set as" by auto
  have step: "\<sigma>2 b = \<sigma> b" using Transform_body_frame [OF body ne] .
  show ?case
  proof (cases e2)
    case None
    with Cons.prems(1) body have "Transform_loop env p2 as \<sigma>2 = (e, p1, \<sigma>1)" by simp
    from Cons.IH [OF this nin] step show ?thesis by simp
  next
    case (Some err)
    with Cons.prems(1) body have "\<sigma>1 = \<sigma>2" by simp
    with step show ?thesis by simp
  qed
qed

lemma Transform_loop_append:
  "Transform_loop env p (xs @ ys) \<sigma> =
     (case Transform_loop env p xs \<sigma> of
        (Some err, p1, \<sigma>1) \<Rightarrow> (Some err, p1, \<sigma>1)
      | (None, p1, \<sigma>1) \<Rightarrow> Transform_loop env p1 ys \<sigma>1)"
  by (induction xs arbitrary: p \<sigma>) (auto split: prod.splits option.splits)

lemma Transform_loop_no_patch:
  "loadedPatch p = None \<Longrightarrow> decodedPatch p = None \<Longrightarrow> Transform_loop env p as \<sigma> = (None, p, \<sigma>)"
  by (induction as) (auto simp: Transform_body_def Transform_json_def Transform_merge_def)

subsection \<open>The stages of Config\<close>

lemma jsonPatchFromBytes_calls:
  "jsonPatchFromBytes env b = (jp, ej, cs) \<Longrightarrow>
     Call_Load x \<notin> set cs \<and> Call_FromBytes y \<notin> set cs"
  by (auto simp: jsonPatchFromBytes_def Let_def split: if_splits sum.splits)

lemma Config_classify_calls:
  assumes "Config_classify env rf b p = (e, p', cs)"
  shows "Call_Load x \<notin> set cs" and "Call_FromBytes y \<in> set cs \<Longrightarrow> y = b"
proof -
  obtain jp ej cj where j: "jsonPatchFromBytes env b = (jp, ej, cj)"
    by (cases "jsonPatchFromBytes env b") auto
  from assms j have cs: "cs = Call_FromBytes b # cj"
    by (auto simp: Config_classify_def Let_def split: prod.splits if_splits)
  from jsonPatchFromBytes_calls [OF j] cs show "Call_Load x \<notin> set cs" by simp
  from jsonPatchFromBytes_calls [OF j] cs show "Call_FromBytes y \<in> set cs \<Longrightarrow> y = b" by auto
qed

lemma Config_classify_both:
  assumes "snd (rf b) = None" and "fst (snd (jsonPatchFromBytes env b)) = None"
  shows "Config_classify env rf b p =
           (None, p, Call_FromBytes b # snd (snd (jsonPatchFromBytes env b)))"
proof -
  obtain sm where r: "rf b = (sm, None)"
    using assms(1) by (cases "rf b") auto
  obtain jp cj where j: "jsonPatchFromBytes env b = (jp, None, cj)"
    using assms(2) by (cases "jsonPatchFromBytes env b") auto
  show ?thesis by (simp add: Config_classify_def r j)
qed

lemma Config_source_cases:
  "Config_source ldr p =
     (if Path p = [] then (Inr (Patch p), [])
      else (case ldr (Path p) of
              Inl e \<Rightarrow> (Inl e, [Call_Load (Path p)])
            | Inr b \<Rightarrow> (Inr (if Patch p \<noteq> [] then Patch p else b), [Call_Load (Path p)])))"
  by (simp add: Config_source_def split: sum.splits)

lemma Config_unfold:
  assumes "yaml_Unmarshal env c (Path p0, Patch p0, Target p0) = ((path, patch, target), None)"
  shows "Config env ldr rf c p0 =
     (let p = p0\<lparr>Path := path, Patch := patch, Target := target\<rparr> in
      if patch = [] \<and> path = [] then (Some (MissingPatchSource c), p, [])
      else if patch \<noteq> [] \<and> path \<noteq> [] then (Some (ConflictingPatchSource c), p, [])
      else if path \<noteq> [] then
        (case ldr path of
           Inl e \<Rightarrow> (Some e, p, [Call_Load path])
         | Inr b \<Rightarrow> (case Config_classify env rf b p of
                       (err, p', calls) \<Rightarrow> (err, p', Call_Load path # calls)))
      else Config_classify env rf patch p)"
  using assms
  by (auto simp: Config_def Config_validate_def Config_source_cases Let_def
      split: sum.splits prod.splits)

subsection \<open>Claims on Config\<close>

text \<open>
  C9. With the path field set, a failure of the loader is what \<open>Config\<close> returns, the
  same error value, and no decoder runs. The loader is called only after the two checks
  on the fields have passed. Whenever the log of a run of \<open>Config\<close> holds a call of the
  loader on a path where the loader fails, the result is that error, the path is the
  plugin's path field, and the log holds this one call: no call of the factory's
  \<open>FromBytes\<close>, of \<open>YAMLToJSON\<close> or of \<open>DecodePatch\<close>.
\<close>

theorem Config_loader_error_propagates:
  assumes cfg: "Config env ldr rf c p0 = (err, p, calls)"
    and called: "Call_Load path \<in> set calls"
    and failed: "ldr path = Inl e"
  shows "err = Some e \<and> calls = [Call_Load path] \<and> Path p = path"
proof -
  obtain path' patch target ue where
    u: "yaml_Unmarshal env c (Path p0, Patch p0, Target p0) = ((path', patch, target), ue)"
    by (metis prod.exhaust)
  show ?thesis
  proof (cases ue)
    case (Some e')
    with cfg u have "calls = []" by (simp add: Config_def)
    with called show ?thesis by simp
  next
    case None
    note unf = Config_unfold [OF u [unfolded None], of ldr rf]
    let ?p = "p0\<lparr>Path := path', Patch := patch, Target := target\<rparr>"
    show ?thesis
    proof (cases "path' = []")
      case True
      then have "Config env ldr rf c p0 = (Some (MissingPatchSource c), ?p, [])
          \<or> Config env ldr rf c p0 = Config_classify env rf patch ?p"
        using unf by (auto simp: Let_def)
      with cfg called Config_classify_calls(1) [of env rf patch ?p err p calls path]
      show ?thesis by auto
    next
      case False
      show ?thesis
      proof (cases "patch = []")
        case patch: False
        with False unf cfg have "calls = []" by (simp add: Let_def)
        with called show ?thesis by simp
      next
        case patch: True
        show ?thesis
        proof (cases "ldr path'")
          case (Inl e')
          with False patch unf cfg have r: "err = Some e'" "calls = [Call_Load path']" "p = ?p"
            by (simp_all add: Let_def)
          with called have "path = path'" by simp
          with r Inl failed show ?thesis by simp
        next
          case (Inr b)
          obtain e2 p2 c2 where cl: "Config_classify env rf b ?p = (e2, p2, c2)"
            by (metis prod.exhaust)
          with False patch unf cfg Inr have r: "calls = Call_Load path' # c2"
            by (simp add: Let_def)
          with called Config_classify_calls(1) [OF cl, of path] have "path = path'" by auto
          with Inr failed show ?thesis by simp
        qed
      qed
    qed
  qed
qed

theorem Config_loader_error_propagates_witness:
  "ex_ldr ''lost.yaml'' = Inl (Errorf ''no such file'')
   \<and> Call_Load ''lost.yaml''
       \<in> set (snd (snd (Config ex_env ex_ldr ex_rf ex_cfg_lost KustomizePlugin)))
   \<and> fst (Config ex_env ex_ldr ex_rf ex_cfg_lost KustomizePlugin) = Some (Errorf ''no such file'')
   \<and> snd (snd (Config ex_env ex_ldr ex_rf ex_cfg_lost KustomizePlugin)) = [Call_Load ''lost.yaml'']
   \<and> Path (fst (snd (Config ex_env ex_ldr ex_rf ex_cfg_lost KustomizePlugin))) = ''lost.yaml''"
proof -
  have h1: "Config ex_env ex_ldr ex_rf ex_cfg_lost KustomizePlugin =
     (Some (Errorf ''no such file''),
      \<lparr>loadedPatch = None, decodedPatch = None, Path = ''lost.yaml'', Patch = [],
         Target = None\<rparr>,
      [Call_Load ''lost.yaml''])"
    by (simp add: Config_defs ex_defs)
  have h2: "Call_Load ''lost.yaml'' \<in> set [Call_Load ''lost.yaml'']" by simp
  have h3: "ex_ldr ''lost.yaml'' = Inl (Errorf ''no such file'')" by (simp add: ex_ldr_def)
  from Config_loader_error_propagates [OF h1 h2 h3] h1 h3 show ?thesis by simp
qed

lemma Config_classify_never_ambiguous:
  "fst (Config_classify env rf b p) \<noteq> Some (AmbiguousPatchType x)"
  by (simp add: Config_classify_def Let_def UnrecognizedPatchFormat_def AmbiguousPatchType_def
      split: prod.splits)

text \<open>
  C1. A body that both decoders accept should make \<open>Config\<close> fail with the
  AmbiguousPatchType error. The code assigns that error at line 74 and returns nil at
  line 78. Here \<open>Config\<close> runs on an inline patch that the factory and \<open>DecodePatch\<close>
  both accept without error: the result is nil.
\<close>

theorem Config_ambiguous_returns_nil:
  "snd (ex_rf ex_body_both) = None
   \<and> fst (snd (jsonPatchFromBytes ex_env ex_body_both)) = None
   \<and> Patch (fst (snd (Config ex_env ex_ldr ex_rf ex_cfg_both KustomizePlugin))) = ex_body_both
   \<and> fst (Config ex_env ex_ldr ex_rf ex_cfg_both KustomizePlugin) = None"
  by (simp add: Config_defs ex_defs)

text \<open>
  C4. After \<open>Config\<close> exactly one of the two patch fields should be set on success. On
  the same body, by the same return at line 78, \<open>Config\<close> succeeds from the zero
  plugin with \<open>loadedPatch\<close> and \<open>decodedPatch\<close> both nil, after both decoders ran.
\<close>

theorem Config_ambiguous_populates_neither:
  "(case Config ex_env ex_ldr ex_rf ex_cfg_both KustomizePlugin of
      (err, p, calls) \<Rightarrow>
        err = None \<and> loadedPatch p = None \<and> decodedPatch p = None
        \<and> calls = [Call_FromBytes ex_body_both, Call_DecodePatch ex_body_both])"
  by (simp add: Config_defs ex_defs)

text \<open>
  C3, as stated: with exactly one of patch and path set, source resolution succeeds.
  It does not when the loader fails: only the path is set, both checks pass, and
  \<open>Config\<close> returns the loader's error.
\<close>

theorem Config_path_loader_failure_counterexample:
  "Path (fst (snd (Config ex_env ex_ldr ex_rf ex_cfg_lost KustomizePlugin))) = ''lost.yaml''
   \<and> Patch (fst (snd (Config ex_env ex_ldr ex_rf ex_cfg_lost KustomizePlugin))) = []
   \<and> Config_source ex_ldr (fst (snd (Config ex_env ex_ldr ex_rf ex_cfg_lost KustomizePlugin)))
       = (Inl (Errorf ''no such file''), [Call_Load ''lost.yaml''])
   \<and> fst (Config ex_env ex_ldr ex_rf ex_cfg_lost KustomizePlugin) = Some (Errorf ''no such file'')"
  by (simp add: Config_defs ex_defs)

text \<open>
  C3, amended. Once the configuration has unmarshalled into the fields \<open>path\<close>,
  \<open>patch\<close> and \<open>target\<close>: with neither patch nor path set \<open>Config\<close> fails with
  MissingPatchSource, with both set it fails with ConflictingPatchSource, in both cases
  before any collaborator is called. With only the patch set the source is the patch text
  and \<open>Config\<close> is the classification of it. With only the path set the source is what
  the loader returns for the path: its error, which \<open>Config\<close> returns, or its bytes,
  which are classified.
\<close>

theorem Config_validation_cases:
  assumes "yaml_Unmarshal env c (Path p0, Patch p0, Target p0) = ((path, patch, target), None)"
    and "p = p0\<lparr>Path := path, Patch := patch, Target := target\<rparr>"
  shows "(patch = [] \<and> path = [] \<longrightarrow>
            Config env ldr rf c p0 = (Some (MissingPatchSource c), p, []))
       \<and> (patch \<noteq> [] \<and> path \<noteq> [] \<longrightarrow>
            Config env ldr rf c p0 = (Some (ConflictingPatchSource c), p, []))
       \<and> (patch \<noteq> [] \<and> path = [] \<longrightarrow>
            Config_source ldr p = (Inr patch, [])
            \<and> Config env ldr rf c p0 = Config_classify env rf patch p)
       \<and> (patch = [] \<and> path \<noteq> [] \<longrightarrow>
            Config_source ldr p = (ldr path, [Call_Load path])
            \<and> Config env ldr rf c p0 =
                (case ldr path of
                   Inl e \<Rightarrow> (Some e, p, [Call_Load path])
                 | Inr b \<Rightarrow>
                     (case Config_classify env rf b p of
                        (err, p', calls) \<Rightarrow> (err, p', Call_Load path # calls))))"
  using Config_unfold [OF assms(1), of ldr rf] assms(2)
  by (auto simp: Let_def Config_source_cases split: sum.splits)

theorem Config_validation_cases_witness:
  "Config ex_env ex_ldr ex_rf ex_cfg_none KustomizePlugin =
     (Some (MissingPatchSource ex_cfg_none),
      KustomizePlugin\<lparr>Path := [], Patch := [], Target := Some ''all''\<rparr>, [])
   \<and> Config ex_env ex_ldr ex_rf ex_cfg_conflict KustomizePlugin =
     (Some (ConflictingPatchSource ex_cfg_conflict),
      KustomizePlugin\<lparr>Path := ''p.yaml'', Patch := ''[]'', Target := None\<rparr>, [])
   \<and> Config ex_env ex_ldr ex_rf ex_cfg_both KustomizePlugin =
     Config_classify ex_env ex_rf ex_body_both
       (KustomizePlugin\<lparr>Path := [], Patch := ex_body_both, Target := Some ''all''\<rparr>)
   \<and> Config ex_env ex_ldr ex_rf ex_cfg_path KustomizePlugin =
     (None,
      \<lparr>loadedPatch = None, decodedPatch = Some [[(''op'', ''replace'')]], Path = ''p.yaml'',
         Patch = [], Target = Some ''all''\<rparr>,
      [Call_Load ''p.yaml'', Call_FromBytes ex_body_json, Call_DecodePatch ex_body_json])
   \<and> Config ex_env ex_ldr ex_rf ex_cfg_lost KustomizePlugin =
     (Some (Errorf ''no such file''),
      KustomizePlugin\<lparr>Path := ''lost.yaml'', Patch := [], Target := None\<rparr>,
      [Call_Load ''lost.yaml''])"
proof -
  let ?K = "KustomizePlugin :: (ex_doc, string) plugin"
  have u1: "yaml_Unmarshal ex_env ex_cfg_none (Path ?K, Patch ?K, Target ?K)
              = (([], [], Some ''all''), None)"
    by (simp add: ex_defs)
  have u2: "yaml_Unmarshal ex_env ex_cfg_conflict (Path ?K, Patch ?K, Target ?K)
              = ((''p.yaml'', ''[]'', None), None)"
    by (simp add: ex_defs)
  have u3: "yaml_Unmarshal ex_env ex_cfg_both (Path ?K, Patch ?K, Target ?K)
              = (([], ex_body_both, Some ''all''), None)"
    by (simp add: ex_defs)
  have u4: "yaml_Unmarshal ex_env ex_cfg_path (Path ?K, Patch ?K, Target ?K)
              = ((''p.yaml'', [], Some ''all''), None)"
    by (simp add: ex_defs)
  have u5: "yaml_Unmarshal ex_env ex_cfg_lost (Path ?K, Patch ?K, Target ?K)
              = ((''lost.yaml'', [], None), None)"
    by (simp add: ex_defs)
  have l4: "ex_ldr ''p.yaml'' = Inr ex_body_json" by (simp add: ex_ldr_def)
  have l5: "ex_ldr ''lost.yaml'' = Inl (Errorf ''no such file'')" by (simp add: ex_ldr_def)
  have c4: "Config_classify ex_env ex_rf ex_body_json
              (?K\<lparr>Path := ''p.yaml'', Patch := [], Target := Some ''all''\<rparr>) =
            (None,
             \<lparr>loadedPatch = None, decodedPatch = Some [[(''op'', ''replace'')]], Path = ''p.yaml'',
                Patch = [], Target = Some ''all''\<rparr>,
             [Call_FromBytes ex_body_json, Call_DecodePatch ex_body_json])"
    by (simp add: Config_classify_def jsonPatchFromBytes_def ex_defs)
  have b: "ex_body_both \<noteq> []" by (simp add: ex_body_both_def)
  from Config_validation_cases [OF u1 refl, of ex_ldr ex_rf]
  have t1: "Config ex_env ex_ldr ex_rf ex_cfg_none ?K =
     (Some (MissingPatchSource ex_cfg_none), ?K\<lparr>Path := [], Patch := [], Target := Some ''all''\<rparr>, [])"
    by simp
  from Config_validation_cases [OF u2 refl, of ex_ldr ex_rf]
  have t2: "Config ex_env ex_ldr ex_rf ex_cfg_conflict ?K =
     (Some (ConflictingPatchSource ex_cfg_conflict),
      ?K\<lparr>Path := ''p.yaml'', Patch := ''[]'', Target := None\<rparr>, [])"
    by simp
  from Config_validation_cases [OF u3 refl, of ex_ldr ex_rf] b
  have t3: "Config ex_env ex_ldr ex_rf ex_cfg_both ?K =
     Config_classify ex_env ex_rf ex_body_both
       (?K\<lparr>Path := [], Patch := ex_body_both, Target := Some ''all''\<rparr>)"
    by simp
  from Config_validation_cases [OF u4 refl, of ex_ldr ex_rf] l4 c4
  have t4: "Config ex_env ex_ldr ex_rf ex_cfg_path ?K =
     (None,
      \<lparr>loadedPatch = None, decodedPatch = Some [[(''op'', ''replace'')]], Path = ''p.yaml'',
         Patch = [], Target = Some ''all''\<rparr>,
      [Call_Load ''p.yaml'', Call_FromBytes ex_body_json, Call_DecodePatch ex_body_json])"
    by simp
  from Config_validation_cases [OF u5 refl, of ex_ldr ex_rf] l5
  have t5: "Config ex_env ex_ldr ex_rf ex_cfg_lost ?K =
     (Some (Errorf ''no such file''),
      ?K\<lparr>Path := ''lost.yaml'', Patch := [], Target := None\<rparr>, [Call_Load ''lost.yaml''])"
    by simp
  from t1 t2 t3 t4 t5 show ?thesis by blast
qed

subsection \<open>Claims on jsonPatchFromBytes\<close>

lemma dropWhile_snoc_keep:
  "\<not> P x \<Longrightarrow> dropWhile P (xs @ [x]) = dropWhile P xs @ [x]"
  by (induction xs) auto

lemma spec_trimmed_bracket:
  assumes "body \<noteq> []" and "hd body = CHR ''[''"
  shows "hd (spec_trimmed body) = CHR ''[''"
proof -
  from assms obtain rest where body: "body = CHR ''['' # rest" by (cases body) auto
  have ns: "\<not> spec_is_space CHR ''[''" by (simp add: spec_is_space_def)
  have "spec_trimmed body = rev (dropWhile spec_is_space (rev rest @ [CHR ''['']))"
    using ns by (simp add: spec_trimmed_def body)
  also have "\<dots> = CHR ''['' # rev (dropWhile spec_is_space (rev rest))"
    using ns by (simp add: dropWhile_snoc_keep)
  finally show ?thesis by simp
qed

text \<open>
  C5, as stated: a body whose trimmed form starts with \<open>[\<close> is decoded directly. The
  code tests the first byte of the body as it is, so a body with a blank before the
  bracket is converted first; here the conversion fails and so does the attempt, although
  \<open>DecodePatch\<close> accepts the body.
\<close>

theorem jsonPatchFromBytes_blank_counterexample:
  "ex_body_blank \<noteq> []
   \<and> hd (spec_trimmed ex_body_blank) = CHR ''[''
   \<and> DecodePatch ex_env ex_body_blank = (Some [[(''op'', ''replace'')]], None)
   \<and> jsonPatchFromBytes ex_env ex_body_blank =
       (None, Some (Errorf ''yaml: did not find expected node''), [Call_YAMLToJSON ex_body_blank])"
  by (simp add: jsonPatchFromBytes_def spec_trimmed_def spec_is_space_def ex_defs)

text \<open>
  C5, amended: the test is on the first byte of the untrimmed body. A non-empty body
  whose first byte is \<open>[\<close> goes to \<open>DecodePatch\<close> as it is, with no conversion. Any
  other non-empty body is converted by \<open>YAMLToJSON\<close> first: if the conversion fails the
  attempt fails with that error and nothing is decoded, otherwise the converted bytes are
  decoded. A body whose trimmed form does not start with \<open>[\<close> is among the latter.
\<close>

theorem jsonPatchFromBytes_first_byte:
  assumes "in' \<noteq> []"
  shows "(hd in' = CHR ''['' \<longrightarrow>
            jsonPatchFromBytes env in' =
              (fst (DecodePatch env in'), snd (DecodePatch env in'), [Call_DecodePatch in']))
       \<and> (hd in' \<noteq> CHR ''['' \<longrightarrow>
            jsonPatchFromBytes env in' =
              (case YAMLToJSON env in' of
                 Inl err \<Rightarrow> (None, Some err, [Call_YAMLToJSON in'])
               | Inr jsonOps \<Rightarrow>
                   (fst (DecodePatch env jsonOps), snd (DecodePatch env jsonOps),
                    [Call_YAMLToJSON in', Call_DecodePatch jsonOps])))
       \<and> (hd (spec_trimmed in') \<noteq> CHR ''['' \<longrightarrow> hd in' \<noteq> CHR ''['')"
  using assms spec_trimmed_bracket [of in']
  by (auto simp: jsonPatchFromBytes_def Let_def)

theorem jsonPatchFromBytes_first_byte_witness:
  "ex_body_json \<noteq> [] \<and> hd ex_body_json = CHR ''[''
   \<and> jsonPatchFromBytes ex_env ex_body_json =
       (Some [[(''op'', ''replace'')]], None, [Call_DecodePatch ex_body_json])
   \<and> ex_body_sm \<noteq> [] \<and> hd ex_body_sm \<noteq> CHR ''['' \<and> hd (spec_trimmed ex_body_sm) \<noteq> CHR ''[''
   \<and> jsonPatchFromBytes ex_env ex_body_sm =
       (None, Some (Errorf ''cannot unmarshal''),
        [Call_YAMLToJSON ex_body_sm, Call_DecodePatch ''{name:x,replicas:3}''])
   \<and> ex_body_blank \<noteq> [] \<and> hd ex_body_blank \<noteq> CHR ''[''
   \<and> jsonPatchFromBytes ex_env ex_body_blank =
       (None, Some (Errorf ''yaml: did not find expected node''), [Call_YAMLToJSON ex_body_blank])"
proof -
  have n1: "ex_body_json \<noteq> []" and h1: "hd ex_body_json = CHR ''[''"
    by (simp_all add: ex_body_json_def)
  have n2: "ex_body_sm \<noteq> []" and h2: "hd ex_body_sm \<noteq> CHR ''[''"
    and s2: "hd (spec_trimmed ex_body_sm) \<noteq> CHR ''[''"
    by (simp_all add: ex_body_sm_def spec_trimmed_def spec_is_space_def)
  have n3: "ex_body_blank \<noteq> []" and h3: "hd ex_body_blank \<noteq> CHR ''[''"
    by (simp_all add: ex_body_blank_def)
  have d1: "DecodePatch ex_env ex_body_json = (Some [[(''op'', ''replace'')]], None)"
    by (simp add: ex_defs)
  have y2: "YAMLToJSON ex_env ex_body_sm = Inr ''{name:x,replicas:3}''"
    by (simp add: ex_defs)
  have d2: "DecodePatch ex_env ''{name:x,replicas:3}'' = (None, Some (Errorf ''cannot unmarshal''))"
    by (simp add: ex_defs)
  have y3: "YAMLToJSON ex_env ex_body_blank = Inl (Errorf ''yaml: did not find expected node'')"
    by (simp add: ex_defs)
  from jsonPatchFromBytes_first_byte [OF n1, of ex_env] h1 d1
  have t1: "jsonPatchFromBytes ex_env ex_body_json =
       (Some [[(''op'', ''replace'')]], None, [Call_DecodePatch ex_body_json])"
    by simp
  from jsonPatchFromBytes_first_byte [OF n2, of ex_env] h2 y2 d2
  have t2: "jsonPatchFromBytes ex_env ex_body_sm =
       (None, Some (Errorf ''cannot unmarshal''),
        [Call_YAMLToJSON ex_body_sm, Call_DecodePatch ''{name:x,replicas:3}''])"
    by simp
  from jsonPatchFromBytes_first_byte [OF n3, of ex_env] h3 y3
  have t3: "jsonPatchFromBytes ex_env ex_body_blank =
       (None, Some (Errorf ''yaml: did not find expected node''), [Call_YAMLToJSON ex_body_blank])"
    by simp
  from n1 h1 t1 n2 h2 s2 t2 n3 h3 t3 show ?thesis by blast
qed

subsection \<open>Claims on Transform\<close>

lemma Transform_implicit_target:
  "Target p = Some s \<Longrightarrow> Transform_implicit env m p \<sigma> = (None, \<sigma>)"
  by (simp add: Transform_implicit_def split: option.splits)

lemma Transform_selected:
  "Target p = Some s \<Longrightarrow>
   Transform env m p \<sigma> =
     (case Select m \<sigma> s of
        Inl err \<Rightarrow> (Some err, p, \<sigma>)
      | Inr resources \<Rightarrow> Transform_loop env p resources \<sigma>)"
  by (simp add: Transform_def Transform_implicit_target)

lemma Transform_no_target:
  "Target p = None \<Longrightarrow> fst (Transform env m p \<sigma>) \<noteq> None"
  by (simp add: Transform_def split: prod.splits option.splits)

text \<open>
  C2. With a strategic merge patch, no selector, and one resource with the patch's id,
  \<open>Transform\<close> should merge the patch into that resource and succeed. The code merges
  (lines 83 to 90) and then, the target still being nil, goes on to line 93 and returns
  the error of line 94. Here the resource at address 0 has the patch's id: after
  \<open>Transform\<close> its \<open>replicas\<close> is 3, and the result is the MissingTarget error.
\<close>

theorem Transform_implicit_merge_returns_error:
  "loadedPatch ex_plugin_sm = Some ex_patch_res \<and> Target ex_plugin_sm = None
   \<and> GetById ex_m ex_store (OrgId ex_env ex_patch_res) = Inr 0
   \<and> Resource_Patch ex_env (ex_store 0) ex_patch_res =
       (\<lparr>rGvk = ex_gvk, rName = ''x'', rNamespace = ''prod'', rDoc = [(''replicas'', 3)]\<rparr>, None)
   \<and> fst (Transform ex_env ex_m ex_plugin_sm ex_store) = Some (MissingTarget ex_body_sm)
   \<and> rDoc (snd (snd (Transform ex_env ex_m ex_plugin_sm ex_store)) 0) = [(''replicas'', 3)]"
  by (simp add: Transform_defs Let_def ex_defs)

text \<open>
  C8. With a selector configured: if its evaluation returns the empty list, \<open>Transform\<close>
  changes no resource (nor the plugin) and returns nil; if its evaluation fails,
  \<open>Transform\<close> returns that same error, again with nothing changed.
\<close>

theorem Transform_selection_empty_or_failed:
  assumes "Target p = Some s"
  shows "(Select m \<sigma> s = Inr [] \<longrightarrow> Transform env m p \<sigma> = (None, p, \<sigma>))
       \<and> (Select m \<sigma> s = Inl e \<longrightarrow> Transform env m p \<sigma> = (Some e, p, \<sigma>))"
  using assms by (simp add: Transform_selected)

theorem Transform_selection_empty_or_failed_witness:
  "Target (ex_plugin_sm\<lparr>Target := Some ''none''\<rparr>) = Some ''none''
   \<and> Select ex_m ex_store ''none'' = Inr []
   \<and> Transform ex_env ex_m (ex_plugin_sm\<lparr>Target := Some ''none''\<rparr>) ex_store
       = (None, ex_plugin_sm\<lparr>Target := Some ''none''\<rparr>, ex_store)
   \<and> Target (ex_plugin_sm\<lparr>Target := Some ''?''\<rparr>) = Some ''?''
   \<and> Select ex_m ex_store ''?'' = Inl (Errorf ''bad selector'')
   \<and> Transform ex_env ex_m (ex_plugin_sm\<lparr>Target := Some ''?''\<rparr>) ex_store
       = (Some (Errorf ''bad selector''), ex_plugin_sm\<lparr>Target := Some ''?''\<rparr>, ex_store)"
proof -
  have t1: "Target (ex_plugin_sm\<lparr>Target := Some ''none''\<rparr>) = Some ''none''" by simp
  have s1: "Select ex_m ex_store ''none'' = Inr []" by (simp add: ex_m_def)
  have t2: "Target (ex_plugin_sm\<lparr>Target := Some ''?''\<rparr>) = Some ''?''" by simp
  have s2: "Select ex_m ex_store ''?'' = Inl (Errorf ''bad selector'')" by (simp add: ex_m_def)
  from Transform_selection_empty_or_failed [where m = ex_m and \<sigma> = ex_store and env = ex_env, OF t1] s1
  have r1: "Transform ex_env ex_m (ex_plugin_sm\<lparr>Target := Some ''none''\<rparr>) ex_store
       = (None, ex_plugin_sm\<lparr>Target := Some ''none''\<rparr>, ex_store)"
    by simp
  from Transform_selection_empty_or_failed [where m = ex_m and \<sigma> = ex_store and env = ex_env
      and e = "Errorf ''bad selector''", OF t2] s2
  have r2: "Transform ex_env ex_m (ex_plugin_sm\<lparr>Target := Some ''?''\<rparr>) ex_store
       = (Some (Errorf ''bad selector''), ex_plugin_sm\<lparr>Target := Some ''?''\<rparr>, ex_store)"
    by simp
  from t1 s1 r1 t2 s2 r2 show ?thesis by blast
qed

lemma Transform_body_plugin:
  "Transform_body env p a \<sigma> = (e, p1, \<sigma>1) \<Longrightarrow>
     decodedPatch p1 = decodedPatch p \<and> Patch p1 = Patch p \<and> Path p1 = Path p
     \<and> Target p1 = Target p"
  by (auto simp: Transform_body_def Transform_merge_def Let_def
      split: option.splits prod.splits)

lemma Transform_loop_plugin:
  "Transform_loop env p as \<sigma> = (e, p1, \<sigma>1) \<Longrightarrow>
     decodedPatch p1 = decodedPatch p \<and> Patch p1 = Patch p \<and> Path p1 = Path p
     \<and> Target p1 = Target p"
proof (induction as arbitrary: p \<sigma>)
  case Nil
  then show ?case by simp
next
  case (Cons a as)
  obtain e2 p2 \<sigma>2 where body: "Transform_body env p a \<sigma> = (e2, p2, \<sigma>2)"
    by (cases "Transform_body env p a \<sigma>") auto
  note step = Transform_body_plugin [OF body]
  show ?case
  proof (cases e2)
    case None
    with Cons.prems body have "Transform_loop env p2 as \<sigma>2 = (e, p1, \<sigma>1)" by simp
    from Cons.IH [OF this] step show ?thesis by simp
  next
    case (Some err)
    with Cons.prems body have "p1 = p2" by simp
    with step show ?thesis by simp
  qed
qed

lemma Transform_body_marshal_error:
  "decodedPatch p = Some dp \<Longrightarrow> MarshalJSON env (\<sigma> a) = Inl e \<Longrightarrow>
   Transform_body env p a \<sigma> = (Some e, p, \<sigma>)"
  by (simp add: Transform_body_def Transform_json_def)

lemma Transform_body_apply_error:
  "decodedPatch p = Some dp \<Longrightarrow> MarshalJSON env (\<sigma> a) = Inr rawObj \<Longrightarrow>
   Apply env dp rawObj = Inl e \<Longrightarrow>
   Transform_body env p a \<sigma> = (Some (PatchApplyFailure e (Patch p)), p, \<sigma>)"
  by (simp add: Transform_body_def Transform_json_def)

lemma Transform_body_unmarshal_error:
  "decodedPatch p = Some dp \<Longrightarrow> MarshalJSON env (\<sigma> a) = Inr rawObj \<Longrightarrow>
   Apply env dp rawObj = Inr modifiedObj \<Longrightarrow>
   UnmarshalJSON env (\<sigma> a) modifiedObj = (r, Some e) \<Longrightarrow>
   Transform_body env p a \<sigma> = (Some e, p, \<sigma>(a := r))"
  by (simp add: Transform_body_def Transform_json_def)

lemma Transform_body_merge_error:
  "decodedPatch p = None \<Longrightarrow> loadedPatch p = Some lp \<Longrightarrow>
   Resource_Patch env (\<sigma> a) (Transform_restamp (\<sigma> a) lp) = (r, Some e) \<Longrightarrow>
   Transform_body env p a \<sigma> =
     (Some e, p\<lparr>loadedPatch := Some (Transform_restamp (\<sigma> a) lp)\<rparr>, \<sigma>(a := r))"
  by (simp add: Transform_body_def Transform_json_def Transform_merge_def)

lemma Transform_body_merge_error_after_json:
  "decodedPatch p = Some dp \<Longrightarrow> MarshalJSON env (\<sigma> a) = Inr rawObj \<Longrightarrow>
   Apply env dp rawObj = Inr modifiedObj \<Longrightarrow>
   UnmarshalJSON env (\<sigma> a) modifiedObj = (rj, None) \<Longrightarrow>
   loadedPatch p = Some lp \<Longrightarrow>
   Resource_Patch env rj (Transform_restamp rj lp) = (r, Some e) \<Longrightarrow>
   Transform_body env p a \<sigma> =
     (Some e, p\<lparr>loadedPatch := Some (Transform_restamp rj lp)\<rparr>, \<sigma>(a := r))"
  by (simp add: Transform_body_def Transform_json_def Transform_merge_def)

lemma Transform_body_json_only:
  "decodedPatch p = Some dp \<Longrightarrow> loadedPatch p = None \<Longrightarrow>
   MarshalJSON env (\<sigma> a) = Inr rawObj \<Longrightarrow> Apply env dp rawObj = Inr modifiedObj \<Longrightarrow>
   UnmarshalJSON env (\<sigma> a) modifiedObj = (r, None) \<Longrightarrow>
   Transform_body env p a \<sigma> = (None, p, \<sigma>(a := r))"
  by (simp add: Transform_body_def Transform_json_def Transform_merge_def)

lemma Transform_body_error_cases:
  assumes "Transform_body env p a \<sigma> = (Some e, p2, \<sigma>2)"
  shows "(\<exists>dp. decodedPatch p = Some dp \<and> MarshalJSON env (\<sigma> a) = Inl e)
       \<or> (\<exists>dp rawObj e0. decodedPatch p = Some dp \<and> MarshalJSON env (\<sigma> a) = Inr rawObj
             \<and> Apply env dp rawObj = Inl e0 \<and> e = PatchApplyFailure e0 (Patch p))
       \<or> (\<exists>dp rawObj modifiedObj r. decodedPatch p = Some dp
             \<and> MarshalJSON env (\<sigma> a) = Inr rawObj \<and> Apply env dp rawObj = Inr modifiedObj
             \<and> UnmarshalJSON env (\<sigma> a) modifiedObj = (r, Some e))
       \<or> (\<exists>lp r. decodedPatch p = None \<and> loadedPatch p = Some lp
             \<and> Resource_Patch env (\<sigma> a) (Transform_restamp (\<sigma> a) lp) = (r, Some e))
       \<or> (\<exists>dp rawObj modifiedObj rj lp r. decodedPatch p = Some dp
             \<and> MarshalJSON env (\<sigma> a) = Inr rawObj \<and> Apply env dp rawObj = Inr modifiedObj
             \<and> UnmarshalJSON env (\<sigma> a) modifiedObj = (rj, None) \<and> loadedPatch p = Some lp
             \<and> Resource_Patch env rj (Transform_restamp rj lp) = (r, Some e))"
proof (cases "decodedPatch p")
  case None
  with assms show ?thesis
    by (auto simp: Transform_body_def Transform_json_def Transform_merge_def Let_def
        split: option.splits prod.splits)
next
  case (Some dp)
  show ?thesis
  proof (cases "MarshalJSON env (\<sigma> a)")
    case (Inl e1)
    with Some assms show ?thesis by (simp add: Transform_body_def Transform_json_def)
  next
    case (Inr rawObj)
    show ?thesis
    proof (cases "Apply env dp rawObj")
      case (Inl e0)
      with Some Inr assms have "e = PatchApplyFailure e0 (Patch p)"
        by (auto simp: Transform_body_def Transform_json_def)
      with Some Inr Inl show ?thesis by simp
    next
      case ap: (Inr modifiedObj)
      obtain rj ej where u: "UnmarshalJSON env (\<sigma> a) modifiedObj = (rj, ej)"
        by (cases "UnmarshalJSON env (\<sigma> a) modifiedObj") auto
      show ?thesis
      proof (cases ej)
        case ej: (Some e1)
        with Some Inr ap u assms have "e1 = e"
          by (simp add: Transform_body_def Transform_json_def)
        with Some Inr ap u ej show ?thesis by simp
      next
        case ej: None
        with Some Inr ap u assms
        have m: "Transform_merge env p a (\<sigma>(a := rj)) = (Some e, p2, \<sigma>2)"
          by (simp add: Transform_body_def Transform_json_def)
        then obtain lp where lp: "loadedPatch p = Some lp"
          by (cases "loadedPatch p") (auto simp: Transform_merge_def)
        obtain r em where rp: "Resource_Patch env rj (Transform_restamp rj lp) = (r, em)"
          by (cases "Resource_Patch env rj (Transform_restamp rj lp)") auto
        with m lp have "em = Some e" by (simp add: Transform_merge_def)
        with Some Inr ap u ej lp rp show ?thesis by simp
      qed
    qed
  qed
qed

text \<open>
  C7. The selected resources are processed in the order of the list the selector
  evaluates to, and the first failure ends the call. Let the list be \<open>xs @ a # ys\<close> and
  let the loop have run over \<open>xs\<close> without error, leaving the plugin \<open>p1\<close> and the
  store \<open>\<sigma>1\<close>. Whichever collaborator then fails on \<open>a\<close>, \<open>Transform\<close> returns at once:
  \<^item> \<open>MarshalJSON\<close> fails (line 105): its error, the store \<open>\<sigma>1\<close>;
  \<^item> \<open>Apply\<close> fails (line 109): its error wrapped with the patch text, the store \<open>\<sigma>1\<close>;
  \<^item> \<open>UnmarshalJSON\<close> fails (line 114): its error, the store \<open>\<sigma>1\<close> with \<open>a\<close> as
    \<open>UnmarshalJSON\<close> left it;
  \<^item> \<open>Patch\<close> fails (line 123), with no JSON patch or after the JSON steps have passed:
    its error, the store \<open>\<sigma>1\<close> with \<open>a\<close> as \<open>Patch\<close> left it.
  In every case the resulting store is \<open>\<sigma>1\<close> except at \<open>a\<close>: nothing of \<open>ys\<close> is
  processed, and the resources of \<open>xs\<close> stay as the loop left them, with no roll back.
  The loop over \<open>xs\<close> changes no resource outside \<open>xs\<close>, so every resource that is
  neither in \<open>xs\<close> nor \<open>a\<close>, every later one among them, is as it was before the call.
  These five are all the ways the body of the loop returns an error
  (\<open>Transform_body_error_cases\<close>).
\<close>

theorem Transform_aborts_at_first_failure:
  assumes tgt: "Target p = Some s"
    and sel: "Select m \<sigma> s = Inr (xs @ a # ys)"
    and before: "Transform_loop env p xs \<sigma> = (None, p1, \<sigma>1)"
  shows "(decodedPatch p = Some dp \<and> MarshalJSON env (\<sigma>1 a) = Inl e \<longrightarrow>
            Transform env m p \<sigma> = (Some e, p1, \<sigma>1))
       \<and> (decodedPatch p = Some dp \<and> MarshalJSON env (\<sigma>1 a) = Inr rawObj
            \<and> Apply env dp rawObj = Inl e \<longrightarrow>
            Transform env m p \<sigma> = (Some (PatchApplyFailure e (Patch p)), p1, \<sigma>1))
       \<and> (decodedPatch p = Some dp \<and> MarshalJSON env (\<sigma>1 a) = Inr rawObj
            \<and> Apply env dp rawObj = Inr modifiedObj
            \<and> UnmarshalJSON env (\<sigma>1 a) modifiedObj = (r, Some e) \<longrightarrow>
            Transform env m p \<sigma> = (Some e, p1, \<sigma>1(a := r)))
       \<and> (decodedPatch p = None \<and> loadedPatch p1 = Some lp
            \<and> Resource_Patch env (\<sigma>1 a) (Transform_restamp (\<sigma>1 a) lp) = (r, Some e) \<longrightarrow>
            Transform env m p \<sigma> =
              (Some e, p1\<lparr>loadedPatch := Some (Transform_restamp (\<sigma>1 a) lp)\<rparr>, \<sigma>1(a := r)))
       \<and> (decodedPatch p = Some dp \<and> MarshalJSON env (\<sigma>1 a) = Inr rawObj
            \<and> Apply env dp rawObj = Inr modifiedObj
            \<and> UnmarshalJSON env (\<sigma>1 a) modifiedObj = (rj, None)
            \<and> loadedPatch p1 = Some lp
            \<and> Resource_Patch env rj (Transform_restamp rj lp) = (r, Some e) \<longrightarrow>
            Transform env m p \<sigma> =
              (Some e, p1\<lparr>loadedPatch := Some (Transform_restamp rj lp)\<rparr>, \<sigma>1(a := r)))
       \<and> (\<forall>b. b \<notin> set xs \<longrightarrow> \<sigma>1 b = \<sigma> b)"
proof -
  have run: "Transform env m p \<sigma> = Transform_loop env p1 (a # ys) \<sigma>1"
    using tgt sel before by (simp add: Transform_selected Transform_loop_append)
  have same: "decodedPatch p1 = decodedPatch p" "Patch p1 = Patch p"
    using Transform_loop_plugin [OF before] by simp_all
  have stop: "Transform env m p \<sigma> = (Some e', p2, \<sigma>2)"
    if "Transform_body env p1 a \<sigma>1 = (Some e', p2, \<sigma>2)" for e' p2 \<sigma>2
    using run that by simp
  have c1: "Transform env m p \<sigma> = (Some e, p1, \<sigma>1)"
    if "decodedPatch p = Some dp" "MarshalJSON env (\<sigma>1 a) = Inl e"
    using that same by (intro stop Transform_body_marshal_error) simp_all
  have c2: "Transform env m p \<sigma> = (Some (PatchApplyFailure e (Patch p)), p1, \<sigma>1)"
    if "decodedPatch p = Some dp" "MarshalJSON env (\<sigma>1 a) = Inr rawObj"
      "Apply env dp rawObj = Inl e"
    using stop [OF Transform_body_apply_error [of p1 dp env \<sigma>1 a rawObj e]] that same
    by simp
  have c3: "Transform env m p \<sigma> = (Some e, p1, \<sigma>1(a := r))"
    if "decodedPatch p = Some dp" "MarshalJSON env (\<sigma>1 a) = Inr rawObj"
      "Apply env dp rawObj = Inr modifiedObj"
      "UnmarshalJSON env (\<sigma>1 a) modifiedObj = (r, Some e)"
    using stop [OF Transform_body_unmarshal_error [of p1 dp env \<sigma>1 a rawObj modifiedObj r e]]
      that same by simp
  have c4: "Transform env m p \<sigma> =
      (Some e, p1\<lparr>loadedPatch := Some (Transform_restamp (\<sigma>1 a) lp)\<rparr>, \<sigma>1(a := r))"
    if "decodedPatch p = None" "loadedPatch p1 = Some lp"
      "Resource_Patch env (\<sigma>1 a) (Transform_restamp (\<sigma>1 a) lp) = (r, Some e)"
    using stop [OF Transform_body_merge_error [of p1 lp env \<sigma>1 a r e]] that same by simp
  have c5: "Transform env m p \<sigma> =
      (Some e, p1\<lparr>loadedPatch := Some (Transform_restamp rj lp)\<rparr>, \<sigma>1(a := r))"
    if "decodedPatch p = Some dp" "MarshalJSON env (\<sigma>1 a) = Inr rawObj"
      "Apply env dp rawObj = Inr modifiedObj"
      "UnmarshalJSON env (\<sigma>1 a) modifiedObj = (rj, None)"
      "loadedPatch p1 = Some lp"
      "Resource_Patch env rj (Transform_restamp rj lp) = (r, Some e)"
    using stop [OF Transform_body_merge_error_after_json
        [of p1 dp env \<sigma>1 a rawObj modifiedObj rj lp r e]] that same by simp
  have frame: "\<forall>b. b \<notin> set xs \<longrightarrow> \<sigma>1 b = \<sigma> b"
    using Transform_loop_frame [OF before] by blast
  from c1 c2 c3 c4 c5 frame show ?thesis by blast
qed

theorem Transform_aborts_at_first_failure_witness:
  "fst (Transform ex_env_json ex_m ex_plugin_json (ex_store_with ex_res_bad))
     = Some (Errorf ''json: unsupported value'')
   \<and> rDoc (snd (snd (Transform ex_env_json ex_m ex_plugin_json (ex_store_with ex_res_bad))) 0)
     = [(''replicas'', 5)]
   \<and> snd (snd (Transform ex_env_json ex_m ex_plugin_json (ex_store_with ex_res_bad))) 1
     = ex_res_bad
   \<and> snd (snd (Transform ex_env_json ex_m ex_plugin_json (ex_store_with ex_res_bad))) 2
     = ex_store_with ex_res_bad 2
   \<and> fst (Transform ex_env_json ex_m ex_plugin_json (ex_store_with ex_res_t))
     = Some (PatchApplyFailure (Errorf ''testing value failed'') ex_body_json)
   \<and> snd (snd (Transform ex_env_json ex_m ex_plugin_json (ex_store_with ex_res_t))) 2
     = ex_store_with ex_res_t 2
   \<and> fst (Transform ex_env_json ex_m ex_plugin_json (ex_store_with ex_res_u))
     = Some (Errorf ''unexpected end of JSON input'')
   \<and> snd (snd (Transform ex_env_json ex_m ex_plugin_json (ex_store_with ex_res_u))) 2
     = ex_store_with ex_res_u 2
   \<and> fst (Transform ex_env ex_m (ex_plugin_sm\<lparr>Target := Some ''all''\<rparr>) ex_store_bad)
     = Some (Errorf ''merge failed'')
   \<and> rDoc (snd (snd (Transform ex_env ex_m (ex_plugin_sm\<lparr>Target := Some ''all''\<rparr>)
                        ex_store_bad)) 0)
     = [(''replicas'', 3)]
   \<and> snd (snd (Transform ex_env ex_m (ex_plugin_sm\<lparr>Target := Some ''all''\<rparr>) ex_store_bad)) 2
     = ex_store_bad 2
   \<and> fst (Transform ex_env_json ex_m ex_plugin_two (ex_store_with ex_res_v))
     = Some (Errorf ''merge failed'')
   \<and> snd (snd (Transform ex_env_json ex_m ex_plugin_two (ex_store_with ex_res_v))) 2
     = ex_store_with ex_res_v 2"
proof -
  note defs = Transform_defs Let_def ex_defs ex_store_bad_def ex_res_bad_def ex_store_with_def
    ex_res_t_def ex_res_u_def ex_res_v_def ex_MarshalJSON_def ex_Apply_def ex_UnmarshalJSON_def
    ex_env_json_def ex_plugin_json_def ex_plugin_two_def
  have n2: "(2::nat) \<notin> set [0]" and n21: "(2::nat) \<noteq> 1" and n01: "(0::nat) \<noteq> 1" by simp_all
  have dj: "decodedPatch ex_plugin_json = Some [[(''op'', ''replace'')]]"
    and tj: "Target ex_plugin_json = Some ''all''"
    and pj: "Patch ex_plugin_json = ex_body_json"
    by (simp_all add: ex_plugin_json_def)
  have sel: "Select ex_m \<sigma> ''all'' = Inr ([0] @ 1 # [2])" for \<sigma> :: "ex_doc store"
    by (simp add: ex_m_def)
  \<comment> \<open>the resource at 1 does not marshal\<close>
  let ?S1 = "ex_store_with ex_res_bad"
  let ?L1 = "Transform_loop ex_env_json ex_plugin_json [0] ?S1"
  have "fst ?L1 = None" by (simp add: defs)
  then have b1: "?L1 = (None, fst (snd ?L1), snd (snd ?L1))" by (metis prod.collapse)
  have m1: "MarshalJSON ex_env_json (snd (snd ?L1) 1) = Inl (Errorf ''json: unsupported value'')"
    by (simp add: defs)
  have d1: "rDoc (snd (snd ?L1) 0) = [(''replicas'', 5)]" and k1: "snd (snd ?L1) 1 = ex_res_bad"
    by (simp_all add: defs)
  note t1 = Transform_aborts_at_first_failure [OF tj sel b1]
  from t1 dj m1 have r1: "Transform ex_env_json ex_m ex_plugin_json ?S1
      = (Some (Errorf ''json: unsupported value''), fst (snd ?L1), snd (snd ?L1))" by blast
  from t1 n2 have f1: "snd (snd ?L1) 2 = ?S1 2" by blast
  have w1: "fst (Transform ex_env_json ex_m ex_plugin_json ?S1)
        = Some (Errorf ''json: unsupported value'')"
    "rDoc (snd (snd (Transform ex_env_json ex_m ex_plugin_json ?S1)) 0) = [(''replicas'', 5)]"
    "snd (snd (Transform ex_env_json ex_m ex_plugin_json ?S1)) 1 = ex_res_bad"
    "snd (snd (Transform ex_env_json ex_m ex_plugin_json ?S1)) 2 = ?S1 2"
    using d1 k1 f1 by (simp_all only: r1 fst_conv snd_conv)
  \<comment> \<open>the operations fail on the resource at 1\<close>
  let ?S2 = "ex_store_with ex_res_t"
  let ?L2 = "Transform_loop ex_env_json ex_plugin_json [0] ?S2"
  have "fst ?L2 = None" by (simp add: defs)
  then have b2: "?L2 = (None, fst (snd ?L2), snd (snd ?L2))" by (metis prod.collapse)
  have m2: "MarshalJSON ex_env_json (snd (snd ?L2) 1) = Inr ''t''" by (simp add: defs)
  have a2: "Apply ex_env_json [[(''op'', ''replace'')]] ''t'' = Inl (Errorf ''testing value failed'')"
    by (simp add: defs)
  note t2 = Transform_aborts_at_first_failure [OF tj sel b2]
  from t2 dj m2 a2 have "Transform ex_env_json ex_m ex_plugin_json ?S2
      = (Some (PatchApplyFailure (Errorf ''testing value failed'') (Patch ex_plugin_json)),
         fst (snd ?L2), snd (snd ?L2))" by blast
  then have r2: "Transform ex_env_json ex_m ex_plugin_json ?S2
      = (Some (PatchApplyFailure (Errorf ''testing value failed'') ex_body_json),
         fst (snd ?L2), snd (snd ?L2))" by (simp only: pj)
  from t2 n2 have f2: "snd (snd ?L2) 2 = ?S2 2" by blast
  have w2: "fst (Transform ex_env_json ex_m ex_plugin_json ?S2)
        = Some (PatchApplyFailure (Errorf ''testing value failed'') ex_body_json)"
    "snd (snd (Transform ex_env_json ex_m ex_plugin_json ?S2)) 2 = ?S2 2"
    using f2 by (simp_all only: r2 fst_conv snd_conv)
  \<comment> \<open>the patched bytes of the resource at 1 do not unmarshal\<close>
  let ?S3 = "ex_store_with ex_res_u"
  let ?L3 = "Transform_loop ex_env_json ex_plugin_json [0] ?S3"
  have "fst ?L3 = None" by (simp add: defs)
  then have b3: "?L3 = (None, fst (snd ?L3), snd (snd ?L3))" by (metis prod.collapse)
  have m3: "MarshalJSON ex_env_json (snd (snd ?L3) 1) = Inr ''u''" by (simp add: defs)
  have a3: "Apply ex_env_json [[(''op'', ''replace'')]] ''u'' = Inr ''u''" by (simp add: defs)
  have u3: "UnmarshalJSON ex_env_json (snd (snd ?L3) 1) ''u''
      = (ex_res_u, Some (Errorf ''unexpected end of JSON input''))" by (simp add: defs)
  note t3 = Transform_aborts_at_first_failure [OF tj sel b3]
  from t3 dj m3 a3 u3 have r3: "Transform ex_env_json ex_m ex_plugin_json ?S3
      = (Some (Errorf ''unexpected end of JSON input''), fst (snd ?L3),
         (snd (snd ?L3))(1 := ex_res_u))" by blast
  from t3 n2 have f3: "snd (snd ?L3) 2 = ?S3 2" by blast
  have w3: "fst (Transform ex_env_json ex_m ex_plugin_json ?S3)
        = Some (Errorf ''unexpected end of JSON input'')"
    "snd (snd (Transform ex_env_json ex_m ex_plugin_json ?S3)) 2 = ?S3 2"
    using f3 n21 by (simp_all only: r3 fst_conv snd_conv fun_upd_apply if_False)
  \<comment> \<open>the merge fails on the resource at 1\<close>
  let ?p4 = "ex_plugin_sm\<lparr>Target := Some ''all''\<rparr>"
  let ?L4 = "Transform_loop ex_env ?p4 [0] ex_store_bad"
  have t4': "Target ?p4 = Some ''all''" and d4: "decodedPatch ?p4 = None"
    by (simp_all add: ex_plugin_sm_def)
  have "fst ?L4 = None" by (simp add: defs)
  then have b4: "?L4 = (None, fst (snd ?L4), snd (snd ?L4))" by (metis prod.collapse)
  have l4: "loadedPatch (fst (snd ?L4)) = Some ex_patch_res" by (simp add: defs)
  have g4: "Resource_Patch ex_env (snd (snd ?L4) 1)
        (Transform_restamp (snd (snd ?L4) 1) ex_patch_res)
      = (ex_res_bad, Some (Errorf ''merge failed''))" by (simp add: defs)
  have d40: "rDoc (snd (snd ?L4) 0) = [(''replicas'', 3)]" by (simp add: defs)
  note t4 = Transform_aborts_at_first_failure [OF t4' sel b4]
  from t4 d4 l4 g4 have r4: "Transform ex_env ex_m ?p4 ex_store_bad
      = (Some (Errorf ''merge failed''),
         (fst (snd ?L4))\<lparr>loadedPatch :=
            Some (Transform_restamp (snd (snd ?L4) 1) ex_patch_res)\<rparr>,
         (snd (snd ?L4))(1 := ex_res_bad))" by blast
  from t4 n2 have f4: "snd (snd ?L4) 2 = ex_store_bad 2" by blast
  have w4: "fst (Transform ex_env ex_m ?p4 ex_store_bad) = Some (Errorf ''merge failed'')"
    "rDoc (snd (snd (Transform ex_env ex_m ?p4 ex_store_bad)) 0) = [(''replicas'', 3)]"
    "snd (snd (Transform ex_env ex_m ?p4 ex_store_bad)) 2 = ex_store_bad 2"
    using f4 d40 n21 n01 by (simp_all only: r4 fst_conv snd_conv fun_upd_apply if_False)
  \<comment> \<open>both patches: the JSON steps pass and the merge fails on the resource at 1\<close>
  let ?S5 = "ex_store_with ex_res_v"
  let ?L5 = "Transform_loop ex_env_json ex_plugin_two [0] ?S5"
  have t5': "Target ex_plugin_two = Some ''all''"
    and d5: "decodedPatch ex_plugin_two = Some [[(''op'', ''replace'')]]"
    by (simp_all add: ex_plugin_two_def ex_plugin_json_def)
  have "fst ?L5 = None" by (simp add: defs)
  then have b5: "?L5 = (None, fst (snd ?L5), snd (snd ?L5))" by (metis prod.collapse)
  have m5: "MarshalJSON ex_env_json (snd (snd ?L5) 1) = Inr ''v''" by (simp add: defs)
  have a5: "Apply ex_env_json [[(''op'', ''replace'')]] ''v'' = Inr ''v''" by (simp add: defs)
  have u5: "UnmarshalJSON ex_env_json (snd (snd ?L5) 1) ''v''
      = (ex_res_v\<lparr>rDoc := []\<rparr>, None)" by (simp add: defs)
  have l5: "loadedPatch (fst (snd ?L5)) = Some ex_patch_res" by (simp add: defs)
  have g5: "Resource_Patch ex_env_json (ex_res_v\<lparr>rDoc := []\<rparr>)
        (Transform_restamp (ex_res_v\<lparr>rDoc := []\<rparr>) ex_patch_res)
      = (ex_res_v\<lparr>rDoc := []\<rparr>, Some (Errorf ''merge failed''))" by (simp add: defs)
  note t5 = Transform_aborts_at_first_failure [OF t5' sel b5]
  from t5 d5 m5 a5 u5 l5 g5 have r5: "Transform ex_env_json ex_m ex_plugin_two ?S5
      = (Some (Errorf ''merge failed''),
         (fst (snd ?L5))\<lparr>loadedPatch :=
            Some (Transform_restamp (ex_res_v\<lparr>rDoc := []\<rparr>) ex_patch_res)\<rparr>,
         (snd (snd ?L5))(1 := ex_res_v\<lparr>rDoc := []\<rparr>))" by blast
  from t5 n2 have f5: "snd (snd ?L5) 2 = ?S5 2" by blast
  have w5: "fst (Transform ex_env_json ex_m ex_plugin_two ?S5) = Some (Errorf ''merge failed'')"
    "snd (snd (Transform ex_env_json ex_m ex_plugin_two ?S5)) 2 = ?S5 2"
    using f5 n21 by (simp_all only: r5 fst_conv snd_conv fun_upd_apply if_False)
  from w1 w2 w3 w4 w5 show ?thesis by blast
qed

lemma Transform_body_merge_only:
  "decodedPatch p = None \<Longrightarrow> loadedPatch p = Some lp \<Longrightarrow>
   Transform_body env p a \<sigma> =
     (snd (Resource_Patch env (\<sigma> a) (Transform_restamp (\<sigma> a) lp)),
      p\<lparr>loadedPatch := Some (Transform_restamp (\<sigma> a) lp)\<rparr>,
      \<sigma>(a := fst (Resource_Patch env (\<sigma> a) (Transform_restamp (\<sigma> a) lp))))"
  by (simp add: Transform_body_def Transform_json_def Transform_merge_def Let_def
      split: prod.splits)

lemma Transform_loop_merge_only:
  assumes "decodedPatch p = None" and "loadedPatch p = Some lp" and "distinct as"
    and "Transform_loop env p as \<sigma> = (None, p', \<sigma>')"
  shows "\<forall>a \<in> set as.
           \<sigma>' a = fst (Resource_Patch env (\<sigma> a) (Transform_restamp (\<sigma> a) lp))
           \<and> snd (Resource_Patch env (\<sigma> a) (Transform_restamp (\<sigma> a) lp)) = None"
  using assms
proof (induction as arbitrary: p lp \<sigma>)
  case Nil
  then show ?case by simp
next
  case (Cons a as)
  let ?lp1 = "Transform_restamp (\<sigma> a) lp"
  let ?r = "Resource_Patch env (\<sigma> a) ?lp1"
  let ?p1 = "p\<lparr>loadedPatch := Some ?lp1\<rparr>"
  let ?\<sigma>1 = "\<sigma>(a := fst ?r)"
  have body: "Transform_body env p a \<sigma> = (snd ?r, ?p1, ?\<sigma>1)"
    using Cons.prems(1,2) by (rule Transform_body_merge_only)
  have ok: "snd ?r = None"
    using Cons.prems(4) body by (cases "snd ?r") auto
  with Cons.prems(4) body have rest: "Transform_loop env ?p1 as ?\<sigma>1 = (None, p', \<sigma>')"
    by simp
  have d: "distinct as" and nin: "a \<notin> set as" using Cons.prems(3) by auto
  have p1: "decodedPatch ?p1 = None" "loadedPatch ?p1 = Some ?lp1"
    using Cons.prems(1) by simp_all
  note IH = Cons.IH [OF p1 d rest]
  have here: "\<sigma>' a = fst ?r"
    using Transform_loop_frame [OF rest nin] by simp
  have there: "\<sigma>' b = fst (Resource_Patch env (\<sigma> b) (Transform_restamp (\<sigma> b) lp))
      \<and> snd (Resource_Patch env (\<sigma> b) (Transform_restamp (\<sigma> b) lp)) = None"
    if "b \<in> set as" for b
  proof -
    from that nin have "b \<noteq> a" by auto
    then have eq: "?\<sigma>1 b = \<sigma> b" by simp
    from IH that
    have "\<sigma>' b = fst (Resource_Patch env (?\<sigma>1 b) (Transform_restamp (?\<sigma>1 b) ?lp1))
        \<and> snd (Resource_Patch env (?\<sigma>1 b) (Transform_restamp (?\<sigma>1 b) ?lp1)) = None"
      by blast
    then show ?thesis unfolding eq Transform_restamp_idem .
  qed
  from here ok there show ?case by auto
qed

lemma map_of_spec_merge_fields:
  "map_of (spec_merge_fields ts ps) k =
     (case map_of ts k of
        None \<Rightarrow> None
      | Some v \<Rightarrow> Some (case map_of ps k of None \<Rightarrow> v | Some pv \<Rightarrow> spec_merge v pv))"
  by (induction ts) (auto split: option.splits)

lemma map_of_filter_fresh:
  "map_of (filter (\<lambda>kv. map_of ts (fst kv) = None) ps) k =
     (if map_of ts k = None then map_of ps k else None)"
  by (induction ps) auto

lemma map_of_merged:
  "map_of (spec_merge_fields ts ps @ filter (\<lambda>kv. map_of ts (fst kv) = None) ps) k =
     (case map_of ts k of
        None \<Rightarrow> map_of ps k
      | Some v \<Rightarrow> Some (case map_of ps k of None \<Rightarrow> v | Some pv \<Rightarrow> spec_merge v pv))"
  by (simp add: map_add_def map_of_spec_merge_fields map_of_filter_fresh split: option.splits)

lemma spec_field_not_carried:
  "\<not> spec_carries d ks \<Longrightarrow> spec_field d ks = None"
  by (induction d ks rule: spec_carries.induct) (auto split: option.splits)

lemma spec_merge_keeps_field:
  "\<not> spec_carries p ks \<Longrightarrow> spec_field (spec_merge t p) ks = spec_field t ks"
proof (induction ks arbitrary: t p)
  case Nil
  then show ?case by (cases p) auto
next
  case (Cons k ks)
  from Cons.prems obtain ps where p: "p = Mapping ps" by (cases p) auto
  show ?case
  proof (cases t)
    case (Mapping ts)
    show ?thesis
    proof (cases "map_of ps k")
      case None
      then show ?thesis
        by (simp add: p Mapping map_of_merged del: map_of_append split: option.splits)
    next
      case (Some pv)
      with Cons.prems p have nc: "\<not> spec_carries pv ks" by simp
      show ?thesis
      proof (cases "map_of ts k")
        case None
        with Some nc show ?thesis
          by (simp add: p Mapping map_of_merged spec_field_not_carried del: map_of_append)
      next
        case (Some v)
        with \<open>map_of ps k = Some pv\<close> Cons.IH [OF nc, of v] show ?thesis
          by (simp add: p Mapping map_of_merged del: map_of_append)
      qed
    qed
  next
    case (Scalar s)
    with spec_field_not_carried [OF Cons.prems] p show ?thesis by simp
  next
    case (Sequence ds)
    with spec_field_not_carried [OF Cons.prems] p show ?thesis by simp
  qed
qed

lemma spec_merge_takes_scalar:
  "spec_field p ks = Some (Scalar s) \<Longrightarrow> spec_field (spec_merge t p) ks = Some (Scalar s)"
proof (induction ks arbitrary: t p)
  case Nil
  then show ?case by simp
next
  case (Cons k ks)
  from Cons.prems obtain ps where p: "p = Mapping ps" by (cases p) auto
  with Cons.prems obtain pv where pv: "map_of ps k = Some pv" "spec_field pv ks = Some (Scalar s)"
    by (auto split: option.splits)
  show ?case
  proof (cases t)
    case (Mapping ts)
    show ?thesis
    proof (cases "map_of ts k")
      case None
      with pv show ?thesis by (simp add: p Mapping map_of_merged del: map_of_append)
    next
      case (Some v)
      with pv Cons.IH [OF pv(2), of v] show ?thesis
        by (simp add: p Mapping map_of_merged del: map_of_append)
    qed
  next
    case (Scalar x)
    with Cons.prems p show ?thesis by simp
  next
    case (Sequence ds)
    with Cons.prems p show ?thesis by simp
  qed
qed

text \<open>
  C6. A strategic merge patch applied through a selector to the resources \<open>as\<close>, each
  matched once, in a call of \<open>Transform\<close> that succeeds. Before each merge the patch
  takes the name, namespace and gvk of the resource at hand and keeps its own body, and
  the resource becomes what the collaborator \<open>Patch\<close> makes of it and of that restamped
  patch; resources that are not matched are unchanged. With \<open>Patch\<close> the deep merge of
  the specification, whenever it succeeds, every matched resource has after \<open>Transform\<close>
  the name, namespace and gvk it had before; every field at a path the patch body does
  not carry is as it was before; and every scalar the patch body carries is in the
  resource at the same path.
\<close>

theorem Transform_broadcast_restamps:
  fixes env :: "(doc, 's) env"
  assumes sm: "loadedPatch p = Some lp" and nojson: "decodedPatch p = None"
    and tgt: "Target p = Some s"
    and sel: "Select m \<sigma> s = Inr as" and once: "distinct as"
    and run: "Transform env m p \<sigma> = (None, p', \<sigma>')"
    and merge: "\<And>r q. snd (Resource_Patch env r q) = None
                  \<Longrightarrow> fst (Resource_Patch env r q) = spec_Patch r q"
  shows "(\<forall>a \<in> set as.
            GetName (Transform_restamp (\<sigma> a) lp) = GetName (\<sigma> a)
            \<and> GetNamespace (Transform_restamp (\<sigma> a) lp) = GetNamespace (\<sigma> a)
            \<and> GetGvk (Transform_restamp (\<sigma> a) lp) = GetGvk (\<sigma> a)
            \<and> rDoc (Transform_restamp (\<sigma> a) lp) = rDoc lp
            \<and> \<sigma>' a = fst (Resource_Patch env (\<sigma> a) (Transform_restamp (\<sigma> a) lp))
            \<and> GetName (\<sigma>' a) = GetName (\<sigma> a)
            \<and> GetNamespace (\<sigma>' a) = GetNamespace (\<sigma> a)
            \<and> GetGvk (\<sigma>' a) = GetGvk (\<sigma> a)
            \<and> (\<forall>f. \<not> spec_carries (rDoc lp) f \<longrightarrow>
                  spec_field (rDoc (\<sigma>' a)) f = spec_field (rDoc (\<sigma> a)) f)
            \<and> (\<forall>f v. spec_field (rDoc lp) f = Some (Scalar v) \<longrightarrow>
                  spec_field (rDoc (\<sigma>' a)) f = Some (Scalar v)))
       \<and> (\<forall>b. b \<notin> set as \<longrightarrow> \<sigma>' b = \<sigma> b)"
proof -
  have loop: "Transform_loop env p as \<sigma> = (None, p', \<sigma>')"
    using run tgt sel by (simp add: Transform_selected)
  note each = Transform_loop_merge_only [OF nojson sm once loop]
  have stamp: "GetName (Transform_restamp r lp) = GetName r
      \<and> GetNamespace (Transform_restamp r lp) = GetNamespace r
      \<and> GetGvk (Transform_restamp r lp) = GetGvk r
      \<and> rDoc (Transform_restamp r lp) = rDoc lp" for r
    by (simp add: Transform_restamp_eq GetName_def GetNamespace_def GetGvk_def)
  have target: "\<sigma>' a = spec_Patch (\<sigma> a) (Transform_restamp (\<sigma> a) lp)" if "a \<in> set as" for a
  proof -
    let ?q = "Transform_restamp (\<sigma> a) lp"
    from each that have r: "\<sigma>' a = fst (Resource_Patch env (\<sigma> a) ?q)"
      and ok: "snd (Resource_Patch env (\<sigma> a) ?q) = None" by auto
    from merge [OF ok] r show ?thesis by simp
  qed
  have ident: "GetName (\<sigma>' a) = GetName (\<sigma> a) \<and> GetNamespace (\<sigma>' a) = GetNamespace (\<sigma> a)
      \<and> GetGvk (\<sigma>' a) = GetGvk (\<sigma> a)" if "a \<in> set as" for a
    using target [OF that]
    by (simp add: spec_Patch_def Transform_restamp_eq GetName_def GetNamespace_def GetGvk_def)
  have body: "rDoc (\<sigma>' a) = spec_merge (rDoc (\<sigma> a)) (rDoc lp)" if "a \<in> set as" for a
    using target [OF that] by (simp add: spec_Patch_def Transform_restamp_eq)
  have kept: "spec_field (rDoc (\<sigma>' a)) f = spec_field (rDoc (\<sigma> a)) f"
    if "a \<in> set as" "\<not> spec_carries (rDoc lp) f" for a f
    using body [OF that(1)] spec_merge_keeps_field [OF that(2)] by simp
  have taken: "spec_field (rDoc (\<sigma>' a)) f = Some (Scalar v)"
    if "a \<in> set as" "spec_field (rDoc lp) f = Some (Scalar v)" for a f v
    using body [OF that(1)] spec_merge_takes_scalar [OF that(2)] by simp
  have frame: "\<forall>b. b \<notin> set as \<longrightarrow> \<sigma>' b = \<sigma> b"
    using Transform_loop_frame [OF loop] by blast
  from each stamp ident kept taken frame show ?thesis by auto
qed

theorem Transform_broadcast_restamps_witness:
  "loadedPatch ex_tree_plugin = Some ex_tree_patch
   \<and> decodedPatch ex_tree_plugin = None
   \<and> Target ex_tree_plugin = Some ''all''
   \<and> Select ex_tree_m ex_tree_store ''all'' = Inr [0, 1]
   \<and> distinct [0, 1 :: nat]
   \<and> fst (Transform ex_tree_env ex_tree_m ex_tree_plugin ex_tree_store) = None
   \<and> GetName ex_tree_patch = ''x''
   \<and> GetName (ex_tree_store 1) = ''y''
   \<and> GetName (spec_Patch (ex_tree_store 1) ex_tree_patch) = ''x''
   \<and> GetName (Transform_restamp (ex_tree_store 1) ex_tree_patch) = ''y''
   \<and> GetName (snd (snd (Transform ex_tree_env ex_tree_m ex_tree_plugin ex_tree_store)) 1) = ''y''
   \<and> GetNamespace (snd (snd (Transform ex_tree_env ex_tree_m ex_tree_plugin ex_tree_store)) 1)
       = ''test''
   \<and> \<not> spec_carries (rDoc ex_tree_patch) [''labels'', ''tier'']
   \<and> spec_field (rDoc (snd (snd (Transform ex_tree_env ex_tree_m ex_tree_plugin ex_tree_store)) 1))
         [''labels'', ''tier'']
       = Some (Scalar ''db'')
   \<and> spec_field (rDoc (ex_tree_store 1)) [''spec'', ''replicas''] = Some (Scalar ''2'')
   \<and> spec_field (rDoc (snd (snd (Transform ex_tree_env ex_tree_m ex_tree_plugin ex_tree_store)) 1))
         [''spec'', ''replicas'']
       = Some (Scalar ''3'')
   \<and> \<not> spec_carries (rDoc ex_tree_patch) [''spec'', ''paused'']
   \<and> spec_field (rDoc (snd (snd (Transform ex_tree_env ex_tree_m ex_tree_plugin ex_tree_store)) 0))
         [''spec'', ''paused'']
       = Some (Scalar ''no'')
   \<and> snd (snd (Transform ex_tree_env ex_tree_m ex_tree_plugin ex_tree_store)) 2 = ex_tree_store 2"
proof -
  let ?T = "Transform ex_tree_env ex_tree_m ex_tree_plugin ex_tree_store"
  note defs = ex_tree_plugin_def ex_tree_patch_def ex_tree_x_def ex_tree_y_def
    ex_tree_store_def ex_tree_env_def ex_tree_m_def ex_gvk_def spec_Patch_def
  have sm: "loadedPatch ex_tree_plugin = Some ex_tree_patch"
    and nojson: "decodedPatch ex_tree_plugin = None"
    and tgt: "Target ex_tree_plugin = Some ''all''"
    by (simp_all add: ex_tree_plugin_def)
  have sel: "Select ex_tree_m ex_tree_store ''all'' = Inr [0, 1]" by (simp add: ex_tree_m_def)
  have once: "distinct [0, 1 :: nat]" by simp
  have ok: "fst ?T = None" by (simp add: Transform_defs Let_def defs)
  have run: "?T = (None, fst (snd ?T), snd (snd ?T))"
    using ok by (metis prod.collapse)
  have merge: "fst (Resource_Patch ex_tree_env r q) = spec_Patch r q"
    if "snd (Resource_Patch ex_tree_env r q) = None" for r q
    by (simp add: ex_tree_env_def)
  note t = Transform_broadcast_restamps [OF sm nojson tgt sel once run merge]
  have m0: "(0::nat) \<in> set [0, 1]" and m1: "(1::nat) \<in> set [0, 1]"
    and m2: "(2::nat) \<notin> set [0, 1]" by simp_all
  have px: "GetName ex_tree_patch = ''x''" by (simp add: GetName_def ex_tree_patch_def)
  have y: "GetName (ex_tree_store 1) = ''y''" "GetNamespace (ex_tree_store 1) = ''test''"
    by (simp_all add: GetName_def GetNamespace_def ex_tree_store_def ex_tree_y_def)
  have plain: "GetName (spec_Patch (ex_tree_store 1) ex_tree_patch) = ''x''"
    by (simp add: GetName_def spec_Patch_def ex_tree_patch_def)
  from t m1 have st: "GetName (Transform_restamp (ex_tree_store 1) ex_tree_patch)
      = GetName (ex_tree_store 1)" by blast
  from t m1 have "GetName (snd (snd ?T) 1) = GetName (ex_tree_store 1)"
    and "GetNamespace (snd (snd ?T) 1) = GetNamespace (ex_tree_store 1)"
    by blast+
  with y st have n: "GetName (Transform_restamp (ex_tree_store 1) ex_tree_patch) = ''y''"
    "GetName (snd (snd ?T) 1) = ''y''" "GetNamespace (snd (snd ?T) 1) = ''test''"
    by (simp_all only:)
  have nc1: "\<not> spec_carries (rDoc ex_tree_patch) [''labels'', ''tier'']"
    and nc0: "\<not> spec_carries (rDoc ex_tree_patch) [''spec'', ''paused'']"
    and c: "spec_field (rDoc ex_tree_patch) [''spec'', ''replicas''] = Some (Scalar ''3'')"
    by (simp_all add: ex_tree_patch_def)
  have old1: "spec_field (rDoc (ex_tree_store 1)) [''labels'', ''tier''] = Some (Scalar ''db'')"
    and old1r: "spec_field (rDoc (ex_tree_store 1)) [''spec'', ''replicas''] = Some (Scalar ''2'')"
    and old0: "spec_field (rDoc (ex_tree_store 0)) [''spec'', ''paused''] = Some (Scalar ''no'')"
    by (simp_all add: ex_tree_store_def ex_tree_x_def ex_tree_y_def)
  from t m1 nc1 have "spec_field (rDoc (snd (snd ?T) 1)) [''labels'', ''tier'']
      = spec_field (rDoc (ex_tree_store 1)) [''labels'', ''tier'']" by blast
  with old1 have k1: "spec_field (rDoc (snd (snd ?T) 1)) [''labels'', ''tier''] = Some (Scalar ''db'')"
    by (simp only:)
  from t m0 nc0 have "spec_field (rDoc (snd (snd ?T) 0)) [''spec'', ''paused'']
      = spec_field (rDoc (ex_tree_store 0)) [''spec'', ''paused'']" by blast
  with old0 have k0: "spec_field (rDoc (snd (snd ?T) 0)) [''spec'', ''paused''] = Some (Scalar ''no'')"
    by (simp only:)
  from t m1 c have r1: "spec_field (rDoc (snd (snd ?T) 1)) [''spec'', ''replicas'']
      = Some (Scalar ''3'')" by blast
  from t m2 have f: "snd (snd ?T) 2 = ex_tree_store 2" by blast
  from sm nojson tgt sel once ok px y(1) plain n nc1 k1 old1r r1 nc0 k0 f show ?thesis by blast
qed

subsection \<open>Config followed by Transform\<close>

lemma Config_reaches_classify:
  assumes cfg: "Config env ldr rf c p0 = (err, p, calls)"
    and body: "Call_FromBytes b \<in> set calls"
  shows "\<exists>p1 cs. Config_classify env rf b p1 = (err, p, cs)
           \<and> loadedPatch p1 = loadedPatch p0 \<and> decodedPatch p1 = decodedPatch p0"
proof -
  obtain path patch target ue where
    u: "yaml_Unmarshal env c (Path p0, Patch p0, Target p0) = ((path, patch, target), ue)"
    by (metis prod.exhaust)
  let ?p = "p0\<lparr>Path := path, Patch := patch, Target := target\<rparr>"
  have same: "loadedPatch ?p = loadedPatch p0 \<and> decodedPatch ?p = decodedPatch p0" by simp
  show ?thesis
  proof (cases ue)
    case (Some e')
    with cfg u have "calls = []" by (simp add: Config_def)
    with body show ?thesis by simp
  next
    case None
    note unf = Config_unfold [OF u [unfolded None], of ldr rf]
    consider (stop) "calls = [] \<or> (\<exists>x. calls = [Call_Load x])"
      | (inline) "Config env ldr rf c p0 = Config_classify env rf patch ?p"
      | (loaded) x where "ldr path = Inr x"
          "Config env ldr rf c p0 =
             (case Config_classify env rf x ?p of
                (err, p', calls) \<Rightarrow> (err, p', Call_Load path # calls))"
      using unf cfg by (auto simp: Let_def split: if_splits sum.splits)
    then show ?thesis
    proof cases
      case stop
      with body show ?thesis by auto
    next
      case inline
      with cfg have cl: "Config_classify env rf patch ?p = (err, p, calls)" by simp
      from Config_classify_calls(2) [OF cl body] cl same show ?thesis by blast
    next
      case loaded
      obtain e2 p2 c2 where cl: "Config_classify env rf x ?p = (e2, p2, c2)"
        by (metis prod.exhaust)
      with loaded(2) cfg have r: "err = e2" "p = p2" "calls = Call_Load path # c2" by simp_all
      with body have "Call_FromBytes b \<in> set c2" by simp
      from Config_classify_calls(2) [OF cl this] cl r same show ?thesis by blast
    qed
  qed
qed

text \<open>
  C10, as stated: after \<open>Config\<close> on a body that both decoders accept, \<open>Transform\<close>
  with a selector returns success. It does not when the evaluation of the selector
  fails: \<open>Transform\<close> returns that error.
\<close>

theorem Config_ambiguous_then_Transform_counterexample:
  "snd (ex_rf ex_body_both) = None
   \<and> fst (snd (jsonPatchFromBytes ex_env ex_body_both)) = None
   \<and> Call_FromBytes ex_body_both
       \<in> set (snd (snd (Config ex_env ex_ldr ex_rf ex_cfg_both_bad KustomizePlugin)))
   \<and> fst (Config ex_env ex_ldr ex_rf ex_cfg_both_bad KustomizePlugin) = None
   \<and> Target (fst (snd (Config ex_env ex_ldr ex_rf ex_cfg_both_bad KustomizePlugin))) = Some ''?''
   \<and> fst (Transform ex_env ex_m
            (fst (snd (Config ex_env ex_ldr ex_rf ex_cfg_both_bad KustomizePlugin))) ex_store)
       = Some (Errorf ''bad selector'')"
  by (simp add: Config_defs Transform_defs Let_def ex_defs)

text \<open>
  C10, amended. Let \<open>Config\<close> run on a plugin that holds no patch and classify a body
  that both decoders accept without error. Then \<open>Config\<close> returns nil and the plugin
  holds neither a strategic merge patch nor a JSON patch. A following \<open>Transform\<close> with
  a selector leaves every resource and the plugin unchanged; it returns nil when the
  evaluation of the selector succeeds, and the selector's error when it fails.
\<close>

theorem Config_ambiguous_then_Transform:
  assumes fresh: "loadedPatch p0 = None" "decodedPatch p0 = None"
    and cfg: "Config env ldr rf c p0 = (err, p, calls)"
    and body: "Call_FromBytes b \<in> set calls"
    and sm: "snd (rf b) = None"
    and json: "fst (snd (jsonPatchFromBytes env b)) = None"
    and tgt: "Target p = Some s"
  shows "err = None \<and> loadedPatch p = None \<and> decodedPatch p = None
       \<and> Transform env m p \<sigma> =
           (case Select m \<sigma> s of
              Inl e \<Rightarrow> (Some e, p, \<sigma>)
            | Inr resources \<Rightarrow> (None, p, \<sigma>))"
proof -
  from Config_reaches_classify [OF cfg body] obtain p1 cs where
    cl: "Config_classify env rf b p1 = (err, p, cs)"
    and same: "loadedPatch p1 = loadedPatch p0" "decodedPatch p1 = decodedPatch p0"
    by blast
  from Config_classify_both [where rf = rf and b = b and env = env and p = p1, OF sm json] cl have r: "err = None" "p = p1" by simp_all
  with same fresh have none: "loadedPatch p = None" "decodedPatch p = None" by simp_all
  have "Transform env m p \<sigma> =
           (case Select m \<sigma> s of
              Inl e \<Rightarrow> (Some e, p, \<sigma>)
            | Inr resources \<Rightarrow> (None, p, \<sigma>))"
    using tgt none by (simp add: Transform_selected Transform_loop_no_patch split: sum.splits)
  with r none show ?thesis by simp
qed

theorem Config_ambiguous_then_Transform_witness:
  "loadedPatch (KustomizePlugin :: (ex_doc, string) plugin) = None
   \<and> decodedPatch (KustomizePlugin :: (ex_doc, string) plugin) = None
   \<and> Call_FromBytes ex_body_both
       \<in> set (snd (snd (Config ex_env ex_ldr ex_rf ex_cfg_both KustomizePlugin)))
   \<and> snd (ex_rf ex_body_both) = None
   \<and> fst (snd (jsonPatchFromBytes ex_env ex_body_both)) = None
   \<and> Target (fst (snd (Config ex_env ex_ldr ex_rf ex_cfg_both KustomizePlugin))) = Some ''all''
   \<and> Select ex_m ex_store ''all'' = Inr [0, 1, 2]
   \<and> Transform ex_env ex_m (fst (snd (Config ex_env ex_ldr ex_rf ex_cfg_both KustomizePlugin)))
        ex_store
       = (None, fst (snd (Config ex_env ex_ldr ex_rf ex_cfg_both KustomizePlugin)), ex_store)"
proof -
  let ?K = "KustomizePlugin :: (ex_doc, string) plugin"
  let ?C = "Config ex_env ex_ldr ex_rf ex_cfg_both ?K"
  have fresh: "loadedPatch ?K = None" "decodedPatch ?K = None"
    by (simp_all add: KustomizePlugin_def)
  have cfg: "?C = (fst ?C, fst (snd ?C), snd (snd ?C))" by simp
  have body: "Call_FromBytes ex_body_both \<in> set (snd (snd ?C))"
    by (simp add: Config_defs ex_defs)
  have sm: "snd (ex_rf ex_body_both) = None" by (simp add: ex_defs)
  have json: "fst (snd (jsonPatchFromBytes ex_env ex_body_both)) = None"
    by (simp add: jsonPatchFromBytes_def ex_defs)
  have tgt: "Target (fst (snd ?C)) = Some ''all''" by (simp add: Config_defs ex_defs)
  have sel: "Select ex_m ex_store ''all'' = Inr [0, 1, 2]" by (simp add: ex_m_def)
  note t = Config_ambiguous_then_Transform
    [where m = ex_m and \<sigma> = ex_store, OF fresh cfg body sm json tgt]
  from t have "Transform ex_env ex_m (fst (snd ?C)) ex_store =
           (case Select ex_m ex_store ''all'' of
              Inl e \<Rightarrow> (Some e, fst (snd ?C), ex_store)
            | Inr resources \<Rightarrow> (None, fst (snd ?C), ex_store))"
    by blast
  with sel have r: "Transform ex_env ex_m (fst (snd ?C)) ex_store
      = (None, fst (snd ?C), ex_store)"
    by (simp only: sum.case)
  from fresh body sm json tgt sel r show ?thesis by blast
qed

end
